theory Spec2Isabelle
  imports Main "HOL-Library.Word"
begin

section \<open>JavaScript strings\<close>

text \<open>
  A JavaScript string is a sequence of UTF-16 code units and \<^verbatim>\<open>.length\<close> counts code
  units, so a string is a list of 16-bit words. \<open>js\<close> embeds an ASCII literal;
  characters outside ASCII that occur in the scripts (the emoji of the messages) are
  written as their code units.
\<close>

type_synonym jsstring = "16 word list"

definition js :: "string \<Rightarrow> jsstring" where
  "js s = map of_char s"

text \<open>
  \<^verbatim>\<open>String.prototype.trim\<close> strips WhiteSpace and LineTerminator code points from both
  ends (ECMAScript): TAB, VT, FF, SP, NBSP, ZWNBSP, the Unicode space separators, and
  LF, CR, LS, PS. All of them are single code units.
\<close>

definition is_white_space :: "16 word \<Rightarrow> bool" where
  "is_white_space c =
     (c = 0x9 \<or> c = 0xA \<or> c = 0xB \<or> c = 0xC \<or> c = 0xD \<or> c = 0x20 \<or> c = 0xA0 \<or>
      c = 0x1680 \<or> (0x2000 \<le> c \<and> c \<le> 0x200A) \<or> c = 0x2028 \<or> c = 0x2029 \<or>
      c = 0x202F \<or> c = 0x205F \<or> c = 0x3000 \<or> c = 0xFEFF)"

definition trim :: "jsstring \<Rightarrow> jsstring" where
  "trim s = rev (dropWhile is_white_space (rev (dropWhile is_white_space s)))"

text \<open>
  Assigning \<^verbatim>\<open>className\<close> makes \<^verbatim>\<open>classList\<close> the ordered set of the tokens of the
  string: split on ASCII whitespace, empty pieces dropped, the first occurrence of a
  token kept (DOM standard, ordered set parser).
\<close>

definition is_ascii_whitespace :: "16 word \<Rightarrow> bool" where
  "is_ascii_whitespace c = (c = 0x9 \<or> c = 0xA \<or> c = 0xC \<or> c = 0xD \<or> c = 0x20)"

fun split_ws :: "jsstring \<Rightarrow> jsstring \<Rightarrow> jsstring list" where
  "split_ws cur [] = (if cur = [] then [] else [cur])"
| "split_ws cur (c # cs) =
     (if is_ascii_whitespace c
      then (if cur = [] then [] else [cur]) @ split_ws [] cs
      else split_ws (cur @ [c]) cs)"

definition tokens :: "jsstring \<Rightarrow> jsstring list" where
  "tokens s = rev (remdups (rev (split_ws [] s)))"

text \<open>The decimal digits of a non-negative integer, as a template literal prints it.\<close>

function decimal :: "nat \<Rightarrow> jsstring" where
  "decimal n =
     (if n < 10 then [of_nat (48 + n)]
      else decimal (n div 10) @ [of_nat (48 + n mod 10)])"
  by pat_completeness auto
termination
  by (relation "measure id") auto

declare decimal.simps [simp del]

text \<open>Substring test, as the attribute selector \<^verbatim>\<open>[attr*="..."]\<close> needs it.\<close>

fun starts_with :: "jsstring \<Rightarrow> jsstring \<Rightarrow> bool" where
  "starts_with [] hay = True"
| "starts_with (c # cs) [] = False"
| "starts_with (c # cs) (h # hs) = (c = h \<and> starts_with cs hs)"

fun js_includes :: "jsstring \<Rightarrow> jsstring \<Rightarrow> bool" where
  "js_includes needle [] = (needle = [])"
| "js_includes needle (h # hs) = (starts_with needle (h # hs) \<or> js_includes needle hs)"

section \<open>The page\<close>

text \<open>
  Elements are objects in a store \<open>obj\<close>, addressed by node identity; the element tree
  below \<^verbatim>\<open>document.body\<close> is \<open>shape\<close>, a tree of identities in document order. A
  property write changes the store and leaves the tree alone; \<^verbatim>\<open>appendChild\<close> and
  \<^verbatim>\<open>removeChild\<close> change the tree and leave the store alone. An element carries the
  attributes and properties the two scripts read or write. \<^verbatim>\<open>innerHTML\<close> and
  \<^verbatim>\<open>textContent\<close> are kept as strings: the icon elements that an \<^verbatim>\<open>innerHTML\<close> write
  parses carry none of the classes any selector of the scripts asks for, and are not
  added to \<open>shape\<close>. \<open>tagName\<close> holds the lower-case local name, \<open>ident\<close> the
  \<^verbatim>\<open>id\<close> attribute, \<open>input_value\<close> the \<^verbatim>\<open>value\<close> of a form control, and \<open>href\<close> both the
  attribute a selector tests and the URL that \<^verbatim>\<open>this.href\<close> reads (the resolution
  against the base URL is left out). An inline style property that is not set is the
  empty string.
\<close>

record css =
  opacity :: jsstring
  transform :: jsstring
  transition :: jsstring
  color :: jsstring
  animation :: jsstring
  borderLeft :: jsstring

record element =
  tagName :: jsstring
  ident :: jsstring
  classList :: "jsstring list"
  href :: jsstring
  input_value :: jsstring
  disabled :: bool
  innerHTML :: jsstring
  textContent :: jsstring
  style :: css

datatype tree = Tree nat "tree list"

text \<open>
  Closures are defunctionalised. A timer callback names the function body and the
  variables it captured: the toast of the three callbacks in \<^verbatim>\<open>showToast\<close>, the link
  (\<^verbatim>\<open>this\<close>) of the delayed navigation, the alert of the two callbacks that hide an
  alert in the second script. A listener names the function registered with
  \<^verbatim>\<open>addEventListener\<close>; only the scroll listener of \<^verbatim>\<open>initNavbar\<close> captures a variable.
  The suffixes \<open>_main\<close> and \<open>_minimal\<close> tell the two scripts apart
  (\<^verbatim>\<open>static/js/main.js\<close> and the second, "Minimal Design" script).
\<close>

datatype callback =
  ToastShow nat
| ToastHide nat
| ToastRemove nat
| Navigate nat
| AnimateWeatherEmoji
| AlertFade nat
| AlertClose nat

datatype target = Window | Document | Node nat

datatype event_type =
  DOMContentLoaded | Scroll | Submit | Input | MouseEnter | MouseLeave | Click | KeyDown

datatype listener =
  Load_main
| Load_minimal
| NavbarScroll "nat option"
| TaskSubmit_main
| TaskSubmit_minimal
| TaskInput_main
| TaskInput_minimal
| TaskEnter_main
| TaskEnter_minimal
| TaskLeave
| ToggleClick
| DeleteClick_main
| DeleteClick_minimal
| LocationSubmit
| Keydown_main
| Keydown_minimal
| AlertsLoad_minimal
| EmojiEnter
| EmojiLeave

datatype dialog = Alert jsstring | Confirm jsstring

datatype js_error = TypeError | NotFoundError

datatype completion = Normal | Throw js_error

text \<open>
  An event carries what the listeners read (the modifier keys and the key of a keyboard
  event) and the flag that \<^verbatim>\<open>preventDefault\<close> sets. The default action itself (submitting
  the form, following the link, the browser's own shortcut) is the browser's: it takes
  place exactly if the flag is still unset after the listeners have run.
\<close>

record event =
  ctrlKey :: bool
  metaKey :: bool
  key :: jsstring
  defaultPrevented :: bool

text \<open>
  \<open>now\<close> is the clock in milliseconds; \<open>timers\<close> are the pending \<^verbatim>\<open>setTimeout\<close>
  callbacks with the time each is due, in the order they were set. \<open>dialogs\<close> logs the
  \<^verbatim>\<open>alert\<close> and \<^verbatim>\<open>confirm\<close> boxes shown, \<open>uncaught\<close> the exceptions that reached the event
  loop, \<open>observed\<close> the targets of the script's \<^verbatim>\<open>IntersectionObserver\<close>.
  \<open>bootstrap_closed\<close> logs the alerts handed to \<^verbatim>\<open>close\<close> of the Bootstrap library; what
  the library then does to the page is its own and is not part of the scripts.
\<close>

record page =
  shape :: tree
  obj :: "nat \<Rightarrow> element"
  next_id :: nat
  activeElement :: "nat option"
  location_href :: jsstring
  scrollY :: nat
  now :: nat
  timers :: "(nat \<times> callback) list"
  listeners :: "(target \<times> event_type \<times> listener) list"
  observed :: "nat list"
  dialogs :: "dialog list"
  uncaught :: "js_error list"
  bootstrap_closed :: "nat list"

subsection \<open>Tree queries\<close>

fun flat :: "tree \<Rightarrow> nat list" where
  "flat (Tree n ts) = n # concat (map flat ts)"

fun paths :: "nat list \<Rightarrow> tree \<Rightarrow> (nat \<times> nat list) list" where
  "paths anc (Tree n ts) = (n, anc) # concat (map (paths (n # anc)) ts)"

definition ancestors :: "nat \<Rightarrow> tree \<Rightarrow> nat list" where
  "ancestors n t = (case map_of (paths [] t) n of Some anc \<Rightarrow> anc | None \<Rightarrow> [])"

fun subtrees :: "tree \<Rightarrow> tree list" where
  "subtrees (Tree n ts) = Tree n ts # concat (map subtrees ts)"

fun root :: "tree \<Rightarrow> nat" where
  "root (Tree n ts) = n"

fun kids :: "tree \<Rightarrow> tree list" where
  "kids (Tree n ts) = ts"

definition descendants :: "nat \<Rightarrow> tree \<Rightarrow> nat list" where
  "descendants n t =
     (case find (\<lambda>u. root u = n) (subtrees t) of
        Some u \<Rightarrow> concat (map flat (kids u))
      | None \<Rightarrow> [])"

fun next_in :: "nat \<Rightarrow> nat list \<Rightarrow> nat option" where
  "next_in n [] = None"
| "next_in n [x] = None"
| "next_in n (x # y # ys) = (if x = n then Some y else next_in n (y # ys))"

definition nextElementSibling :: "nat \<Rightarrow> tree \<Rightarrow> nat option" where
  "nextElementSibling n t =
     (case find (\<lambda>u. n \<in> set (map root (kids u))) (subtrees t) of
        Some u \<Rightarrow> next_in n (map root (kids u))
      | None \<Rightarrow> None)"

definition body_children :: "page \<Rightarrow> nat list" where
  "body_children s = map root (kids (shape s))"

subsection \<open>Selectors\<close>

text \<open>
  The selectors of the scripts: a comma list of descendant chains of compounds of class,
  type and attribute-substring selectors.
\<close>

datatype simple_selector =
  ClassSel jsstring
| TagSel jsstring
| HrefContains jsstring
| ClassContains jsstring

type_synonym compound = "simple_selector list"
type_synonym selector = "compound list list"

fun matches_simple :: "element \<Rightarrow> simple_selector \<Rightarrow> bool" where
  "matches_simple e (ClassSel c) = (c \<in> set (classList e))"
| "matches_simple e (TagSel t) = (tagName e = t)"
| "matches_simple e (HrefContains x) = js_includes x (href e)"
| "matches_simple e (ClassContains x) = list_ex (js_includes x) (classList e)"

definition matches_compound :: "element \<Rightarrow> compound \<Rightarrow> bool" where
  "matches_compound e c = list_all (matches_simple e) c"

fun match_up :: "compound list \<Rightarrow> element list \<Rightarrow> bool" where
  "match_up [] es = True"
| "match_up (c # cs) [] = False"
| "match_up (c # cs) (e # es) =
     (if matches_compound e c then match_up cs es else match_up (c # cs) es)"

definition matches_chain :: "page \<Rightarrow> compound list \<Rightarrow> nat \<Rightarrow> bool" where
  "matches_chain s chain n =
     (case rev chain of
        [] \<Rightarrow> False
      | c # cs \<Rightarrow> matches_compound (obj s n) c \<and>
                 match_up cs (map (obj s) (ancestors n (shape s))))"

definition matches :: "page \<Rightarrow> selector \<Rightarrow> nat \<Rightarrow> bool" where
  "matches s sel n = list_ex (\<lambda>chain. matches_chain s chain n) sel"

definition querySelectorAll :: "selector \<Rightarrow> page \<Rightarrow> nat list" where
  "querySelectorAll sel s = filter (matches s sel) (flat (shape s))"

definition querySelector :: "selector \<Rightarrow> page \<Rightarrow> nat option" where
  "querySelector sel s = find (matches s sel) (flat (shape s))"

definition getElementById :: "jsstring \<Rightarrow> page \<Rightarrow> nat option" where
  "getElementById i s = find (\<lambda>n. ident (obj s n) = i) (flat (shape s))"

definition closest :: "selector \<Rightarrow> nat \<Rightarrow> page \<Rightarrow> nat option" where
  "closest sel n s = find (matches s sel) (n # ancestors n (shape s))"

definition querySelector_in :: "nat \<Rightarrow> selector \<Rightarrow> page \<Rightarrow> nat option" where
  "querySelector_in n sel s = find (matches s sel) (descendants n (shape s))"

definition cls :: "string \<Rightarrow> selector" where
  "cls c = [[[ClassSel (js c)]]]"

subsection \<open>Property writes and effects\<close>

definition upd :: "nat \<Rightarrow> (element \<Rightarrow> element) \<Rightarrow> page \<Rightarrow> page" where
  "upd n f s = s\<lparr>obj := (obj s)(n := f (obj s n))\<rparr>"

definition set_style :: "(css \<Rightarrow> css) \<Rightarrow> element \<Rightarrow> element" where
  "set_style f e = e\<lparr>style := f (style e)\<rparr>"

definition classList_add :: "jsstring \<Rightarrow> element \<Rightarrow> element" where
  "classList_add c e = (if c \<in> set (classList e) then e else e\<lparr>classList := classList e @ [c]\<rparr>)"

definition classList_remove :: "jsstring \<Rightarrow> element \<Rightarrow> element" where
  "classList_remove c e = e\<lparr>classList := filter (\<lambda>x. x \<noteq> c) (classList e)\<rparr>"

definition set_className :: "jsstring \<Rightarrow> element \<Rightarrow> element" where
  "set_className v e = e\<lparr>classList := tokens v\<rparr>"

definition new_element :: "jsstring \<Rightarrow> element" where
  "new_element t =
     \<lparr>tagName = t, ident = [], classList = [], href = [], input_value = [],
      disabled = False, innerHTML = [], textContent = [],
      style = \<lparr>opacity = [], transform = [], transition = [], color = [],
               animation = [], borderLeft = []\<rparr>\<rparr>"

definition createElement :: "jsstring \<Rightarrow> page \<Rightarrow> nat \<times> page" where
  "createElement t s =
     (next_id s, s\<lparr>obj := (obj s)(next_id s := new_element t), next_id := Suc (next_id s)\<rparr>)"

definition appendChild_body :: "nat \<Rightarrow> page \<Rightarrow> page" where
  "appendChild_body n s = s\<lparr>shape := Tree (root (shape s)) (kids (shape s) @ [Tree n []])\<rparr>"

definition removeChild_body :: "nat \<Rightarrow> page \<Rightarrow> completion \<times> page" where
  "removeChild_body n s =
     (if n \<in> set (body_children s)
      then (Normal, s\<lparr>shape := Tree (root (shape s)) (filter (\<lambda>u. root u \<noteq> n) (kids (shape s)))\<rparr>)
      else (Throw NotFoundError, s))"

definition setTimeout :: "callback \<Rightarrow> nat \<Rightarrow> page \<Rightarrow> page" where
  "setTimeout cb delay s = s\<lparr>timers := timers s @ [(now s + delay, cb)]\<rparr>"

definition addEventListener :: "target \<Rightarrow> event_type \<Rightarrow> listener \<Rightarrow> page \<Rightarrow> page" where
  "addEventListener t ty l s = s\<lparr>listeners := listeners s @ [(t, ty, l)]\<rparr>"

definition preventDefault :: "event \<Rightarrow> event" where
  "preventDefault e = e\<lparr>defaultPrevented := True\<rparr>"

definition focus :: "nat \<Rightarrow> page \<Rightarrow> page" where
  "focus n s = s\<lparr>activeElement := Some n\<rparr>"

definition alert :: "jsstring \<Rightarrow> page \<Rightarrow> page" where
  "alert m s = s\<lparr>dialogs := dialogs s @ [Alert m]\<rparr>"

definition confirm :: "jsstring \<Rightarrow> page \<Rightarrow> page" where
  "confirm m s = s\<lparr>dialogs := dialogs s @ [Confirm m]\<rparr>"

section \<open>Toast notifications\<close>

text \<open>\<^verbatim>\<open>showToast(message, type = 'info')\<close>, the same text in both scripts.\<close>

definition showToast :: "jsstring \<Rightarrow> jsstring \<Rightarrow> page \<Rightarrow> page" where
  "showToast message type s =
     (let (toast, s1) = createElement (js ''div'') s;
          s2 = upd toast (set_className (js ''toast-notification toast-'' @ type)) s1;
          s3 = upd toast (\<lambda>e. e\<lparr>innerHTML := message\<rparr>) s2;
          s4 = appendChild_body toast s3;
          s5 = setTimeout (ToastShow toast) 100 s4
      in setTimeout (ToastHide toast) 3000 s5)"

section \<open>Timers\<close>

text \<open>\<^verbatim>\<open>animateWeatherEmoji\<close> of \<^verbatim>\<open>main.js\<close>, which the script runs from a 500ms timer.\<close>

definition animateWeatherEmoji :: "page \<Rightarrow> page" where
  "animateWeatherEmoji s =
     (case querySelector (cls ''weather-emoji-large'') s of
        None \<Rightarrow> s
      | Some weatherEmoji \<Rightarrow>
          addEventListener (Node weatherEmoji) MouseLeave EmojiLeave
            (addEventListener (Node weatherEmoji) MouseEnter EmojiEnter s))"

text \<open>
  The bodies of the timer callbacks. An exception thrown by a callback
  (\<^verbatim>\<open>removeChild\<close> of a node that is not a child) reaches the event loop and is logged.
  The last two are the callbacks of the second script's alert auto-hide: the first fades
  the alert and sets the second, which hands the alert to
  \<^verbatim>\<open>bootstrap.Alert.getOrCreateInstance(alert).close()\<close>.
\<close>

fun run_callback :: "callback \<Rightarrow> page \<Rightarrow> page" where
  "run_callback (ToastShow toast) s = upd toast (classList_add (js ''show'')) s"
| "run_callback (ToastHide toast) s =
     setTimeout (ToastRemove toast) 300 (upd toast (classList_remove (js ''show'')) s)"
| "run_callback (ToastRemove toast) s =
     (case removeChild_body toast s of
        (Normal, s') \<Rightarrow> s'
      | (Throw err, s') \<Rightarrow> s'\<lparr>uncaught := uncaught s' @ [err]\<rparr>)"
| "run_callback (Navigate link) s = s\<lparr>location_href := href (obj s link)\<rparr>"
| "run_callback AnimateWeatherEmoji s = animateWeatherEmoji s"
| "run_callback (AlertFade banner) s =
     setTimeout (AlertClose banner) 300
       (upd banner (set_style (\<lambda>st. st\<lparr>transform := js ''translateY(-20px)''\<rparr>))
         (upd banner (set_style (\<lambda>st. st\<lparr>opacity := js ''0''\<rparr>))
           (upd banner (set_style (\<lambda>st. st\<lparr>transition := js ''all 0.3s ease''\<rparr>)) s)))"
| "run_callback (AlertClose banner) s = s\<lparr>bootstrap_closed := bootstrap_closed s @ [banner]\<rparr>"

text \<open>
  The event loop runs the pending timer that is due first, and among timers due at the
  same time the one set first. Timers fire exactly when due: the delay a browser adds
  on top (scheduling jitter) is not modelled. \<open>advance T\<close> lets the clock run to \<open>T\<close>.
\<close>

fun earliest :: "(nat \<times> callback) list \<Rightarrow> (nat \<times> callback) option" where
  "earliest [] = None"
| "earliest (x # xs) =
     (case earliest xs of
        None \<Rightarrow> Some x
      | Some y \<Rightarrow> if fst x \<le> fst y then Some x else Some y)"

definition fire :: "nat \<times> callback \<Rightarrow> page \<Rightarrow> page" where
  "fire x s = run_callback (snd x) (s\<lparr>timers := remove1 x (timers s), now := max (now s) (fst x)\<rparr>)"

fun weight :: "callback \<Rightarrow> nat" where
  "weight (ToastHide toast) = 2"
| "weight (AlertFade banner) = 2"
| "weight cb = 1"

text \<open>The timers a callback sets when it runs at time \<open>t\<close>.\<close>

fun spawned :: "nat \<Rightarrow> callback \<Rightarrow> (nat \<times> callback) list" where
  "spawned t (ToastHide toast) = [(t + 300, ToastRemove toast)]"
| "spawned t (AlertFade banner) = [(t + 300, AlertClose banner)]"
| "spawned t cb = []"

definition pending_work :: "page \<Rightarrow> nat" where
  "pending_work s = sum_list (map (\<lambda>x. weight (snd x)) (timers s))"

lemma earliest_in: "earliest ts = Some x \<Longrightarrow> x \<in> set ts"
  by (induction ts arbitrary: x) (auto split: option.splits if_splits)

lemma earliest_None: "earliest ts = None \<longleftrightarrow> ts = []"
  by (cases ts) (auto split: option.splits if_splits)

lemma earliest_le: "earliest ts = Some x \<Longrightarrow> y \<in> set ts \<Longrightarrow> fst x \<le> fst y"
proof (induction ts arbitrary: x)
  case Nil
  then show ?case by simp
next
  case (Cons a ts)
  show ?case
  proof (cases "earliest ts")
    case None
    then have "ts = []" by (simp add: earliest_None)
    with Cons.prems show ?thesis by simp
  next
    case (Some z)
    have z: "y \<in> set ts \<Longrightarrow> fst z \<le> fst y"
      using Cons.IH [OF Some] .
    from Cons.prems Some show ?thesis
      by (auto split: if_splits dest: z)
  qed
qed

lemma timers_animateWeatherEmoji: "timers (animateWeatherEmoji s) = timers s"
  by (simp add: animateWeatherEmoji_def addEventListener_def split: option.splits)

lemma timers_run_callback:
  "timers (run_callback cb s) = timers s @ spawned (now s) cb"
  by (cases cb)
     (simp_all add: upd_def setTimeout_def removeChild_body_def timers_animateWeatherEmoji
       split: prod.splits completion.splits)

lemma pending_work_fire:
  assumes "x \<in> set (timers s)"
  shows "pending_work (fire x s) < pending_work s"
proof -
  have "sum_list (map (\<lambda>x. weight (snd x)) (timers s)) =
        weight (snd x) + sum_list (map (\<lambda>x. weight (snd x)) (remove1 x (timers s)))"
    using assms by (rule sum_list_map_remove1)
  then show ?thesis
    by (cases "snd x") (simp_all add: pending_work_def fire_def timers_run_callback del: run_callback.simps)
qed

function advance :: "nat \<Rightarrow> page \<Rightarrow> page" where
  "advance T s =
     (case earliest (timers s) of
        None \<Rightarrow> s\<lparr>now := max (now s) T\<rparr>
      | Some x \<Rightarrow> if fst x \<le> T then advance T (fire x s) else s\<lparr>now := max (now s) T\<rparr>)"
  by pat_completeness auto
termination
  by (relation "measure (\<lambda>(T, s). pending_work s)")
     (auto dest: earliest_in intro: pending_work_fire)

declare advance.simps [simp del]

section \<open>Reveal on view\<close>

text \<open>
  The callback of the \<^verbatim>\<open>IntersectionObserver\<close>, the same text in both scripts. The
  browser computes the entries (threshold 0.1, the root margin) and passes them in; the
  callback reads the target and \<^verbatim>\<open>isIntersecting\<close> of each.
\<close>

record entry =
  entry_target :: nat
  isIntersecting :: bool

definition observer_entry :: "entry \<Rightarrow> page \<Rightarrow> page" where
  "observer_entry en s =
     (if isIntersecting en
      then upd (entry_target en) (set_style (\<lambda>st. st\<lparr>transform := js ''translateY(0)''\<rparr>))
             (upd (entry_target en) (set_style (\<lambda>st. st\<lparr>opacity := js ''1''\<rparr>)) s)
      else s)"

definition observer_callback :: "entry list \<Rightarrow> page \<Rightarrow> page" where
  "observer_callback entries s = fold observer_entry entries s"

definition observe :: "nat \<Rightarrow> page \<Rightarrow> page" where
  "observe el s = (if el \<in> set (observed s) then s else s\<lparr>observed := observed s @ [el]\<rparr>)"

text \<open>
  The browser calls the callback with entries for targets that are under observation,
  and for no others.
\<close>

definition deliver :: "entry list \<Rightarrow> page \<Rightarrow> page" where
  "deliver entries s =
     observer_callback (filter (\<lambda>en. entry_target en \<in> set (observed s)) entries) s"

definition animated :: selector where
  "animated = [[[ClassSel (js ''animate-fade-in'')]], [[ClassSel (js ''animate-slide-up'')]]]"

definition initAnimations_main :: "page \<Rightarrow> page" where
  "initAnimations_main s = fold observe (querySelectorAll animated s) s"

definition init_animated_minimal :: "nat \<Rightarrow> page \<Rightarrow> page" where
  "init_animated_minimal el s =
     observe el
       (upd el (set_style (\<lambda>st. st\<lparr>transition := js ''all 0.8s cubic-bezier(0.4, 0, 0.2, 1)''\<rparr>))
         (upd el (set_style (\<lambda>st. st\<lparr>transform := js ''translateY(30px)''\<rparr>))
           (upd el (set_style (\<lambda>st. st\<lparr>opacity := js ''0''\<rparr>)) s)))"

definition initAnimations_minimal :: "page \<Rightarrow> page" where
  "initAnimations_minimal s = fold init_animated_minimal (querySelectorAll animated s) s"

section \<open>Navbar (second script only)\<close>

definition initNavbar :: "page \<Rightarrow> page" where
  "initNavbar s =
     (let navbar = querySelector (cls ''navbar-custom'') s
      in addEventListener Window Scroll (NavbarScroll navbar) s)"

definition navbar_scroll :: "nat option \<Rightarrow> event \<Rightarrow> page \<Rightarrow> completion \<times> event \<times> page" where
  "navbar_scroll navbar e s =
     (case navbar of
        None \<Rightarrow> (Throw TypeError, e, s)
      | Some nb \<Rightarrow>
          if scrollY s > 50
          then (Normal, e, upd nb (classList_add (js ''scrolled'')) s)
          else (Normal, e, upd nb (classList_remove (js ''scrolled'')) s))"

section \<open>Form validation\<close>

definition msg_too_short_main :: jsstring where
  "msg_too_short_main = [0x26A0, 0xFE0F] @ js '' Please enter a task with at least 3 characters''"

definition msg_too_short_minimal :: jsstring where
  "msg_too_short_minimal = [0x26A0, 0xFE0F] @ js '' Please enter at least 3 characters''"

definition msg_analyzing :: jsstring where
  "msg_analyzing = [0xD83E, 0xDD16] @ js '' AI is analyzing your task...''"

definition html_analyzing :: jsstring where
  \<open>html_analyzing = js ''<i class="fas fa-spinner fa-spin"></i> Analyzing...''\<close>

text \<open>
  The submit listener of \<^verbatim>\<open>addTaskForm\<close>. Reading \<^verbatim>\<open>.value\<close> of \<^verbatim>\<open>null\<close>, or writing
  \<^verbatim>\<open>.disabled\<close> of \<^verbatim>\<open>null\<close>, throws a TypeError. \<^verbatim>\<open>return false\<close> in a listener added
  with \<^verbatim>\<open>addEventListener\<close> has no effect of its own. \<^verbatim>\<open>main.js\<close> reports a short
  task with \<^verbatim>\<open>alert\<close>, the second script with a toast.
\<close>

definition taskForm_submit_main :: "event \<Rightarrow> page \<Rightarrow> completion \<times> event \<times> page" where
  "taskForm_submit_main e s =
     (let taskInput = getElementById (js ''task_name'') s;
          submitBtn = getElementById (js ''submitTaskBtn'') s
      in case taskInput of
           None \<Rightarrow> (Throw TypeError, e, s)
         | Some ti \<Rightarrow>
             if length (trim (input_value (obj s ti))) < 3
             then (Normal, preventDefault e, focus ti (alert msg_too_short_main s))
             else (case submitBtn of
                     None \<Rightarrow> (Throw TypeError, e, s)
                   | Some sb \<Rightarrow>
                       (Normal, e,
                        showToast msg_analyzing (js ''info'')
                          (upd sb (\<lambda>b. b\<lparr>innerHTML := html_analyzing\<rparr>)
                            (upd sb (\<lambda>b. b\<lparr>disabled := True\<rparr>) s)))))"

definition taskForm_submit_minimal :: "event \<Rightarrow> page \<Rightarrow> completion \<times> event \<times> page" where
  "taskForm_submit_minimal e s =
     (let taskInput = getElementById (js ''task_name'') s;
          submitBtn = getElementById (js ''submitTaskBtn'') s
      in case taskInput of
           None \<Rightarrow> (Throw TypeError, e, s)
         | Some ti \<Rightarrow>
             if length (trim (input_value (obj s ti))) < 3
             then (Normal, preventDefault e,
                   focus ti (showToast msg_too_short_minimal (js ''warning'') s))
             else (case submitBtn of
                     None \<Rightarrow> (Throw TypeError, e, s)
                   | Some sb \<Rightarrow>
                       (Normal, e,
                        showToast msg_analyzing (js ''info'')
                          (upd sb (\<lambda>b. b\<lparr>innerHTML := html_analyzing\<rparr>)
                            (upd sb (\<lambda>b. b\<lparr>disabled := True\<rparr>) s)))))"

text \<open>The character counter: the input listener of the task field.\<close>

definition hint_count_main :: "nat \<Rightarrow> jsstring" where
  \<open>hint_count_main n =
     js ''<i class="fas fa-check-circle text-success"></i> '' @ decimal n @
     js '' characters - Looking good!''\<close>

definition hint_default_main :: jsstring where
  \<open>hint_default_main =
     js ''<i class="fas fa-info-circle"></i> AI will analyze this task against current weather''\<close>

definition hint_count_minimal :: "nat \<Rightarrow> jsstring" where
  \<open>hint_count_minimal n =
     js ''<i class="fas fa-check-circle"></i> '' @ decimal n @ js '' characters''\<close>

definition hint_default_minimal :: jsstring where
  \<open>hint_default_minimal = js ''<i class="fas fa-info-circle"></i> AI will analyze this task''\<close>

definition taskInput_input_main :: "nat \<Rightarrow> event \<Rightarrow> page \<Rightarrow> completion \<times> event \<times> page" where
  "taskInput_input_main this e s =
     (let len = length (input_value (obj s this));
          formText = nextElementSibling this (shape s)
      in case formText of
           None \<Rightarrow> (Throw TypeError, e, s)
         | Some ft \<Rightarrow>
             if len > 0
             then (Normal, e, upd ft (\<lambda>h. h\<lparr>innerHTML := hint_count_main len\<rparr>) s)
             else (Normal, e, upd ft (\<lambda>h. h\<lparr>innerHTML := hint_default_main\<rparr>) s))"

definition taskInput_input_minimal :: "nat \<Rightarrow> event \<Rightarrow> page \<Rightarrow> completion \<times> event \<times> page" where
  "taskInput_input_minimal this e s =
     (let len = length (input_value (obj s this));
          formText = nextElementSibling this (shape s)
      in case formText of
           None \<Rightarrow> (Throw TypeError, e, s)
         | Some ft \<Rightarrow>
             if len > 0
             then (Normal, e,
                   upd ft (set_style (\<lambda>st. st\<lparr>color := js ''var(--success)''\<rparr>))
                     (upd ft (\<lambda>h. h\<lparr>innerHTML := hint_count_minimal len\<rparr>) s))
             else (Normal, e,
                   upd ft (set_style (\<lambda>st. st\<lparr>color := js ''var(--text-secondary)''\<rparr>))
                     (upd ft (\<lambda>h. h\<lparr>innerHTML := hint_default_minimal\<rparr>) s)))"

definition initFormValidation_main :: "page \<Rightarrow> page" where
  "initFormValidation_main s =
     (let s1 = (case getElementById (js ''addTaskForm'') s of
                  None \<Rightarrow> s
                | Some taskForm \<Rightarrow> addEventListener (Node taskForm) Submit TaskSubmit_main s)
      in case getElementById (js ''task_name'') s1 of
           None \<Rightarrow> s1
         | Some taskInput \<Rightarrow> addEventListener (Node taskInput) Input TaskInput_main s1)"

definition initFormValidation_minimal :: "page \<Rightarrow> page" where
  "initFormValidation_minimal s =
     (let s1 = (case getElementById (js ''addTaskForm'') s of
                  None \<Rightarrow> s
                | Some taskForm \<Rightarrow> addEventListener (Node taskForm) Submit TaskSubmit_minimal s)
      in case getElementById (js ''task_name'') s1 of
           None \<Rightarrow> s1
         | Some taskInput \<Rightarrow> addEventListener (Node taskInput) Input TaskInput_minimal s1)"

section \<open>Task interactions\<close>

definition task_mouseenter_main :: "nat \<Rightarrow> event \<Rightarrow> page \<Rightarrow> completion \<times> event \<times> page" where
  "task_mouseenter_main this e s =
     (Normal, e, upd this (set_style (\<lambda>st. st\<lparr>transform := js ''translateX(5px)''\<rparr>)) s)"

definition task_mouseenter_minimal :: "nat \<Rightarrow> event \<Rightarrow> page \<Rightarrow> completion \<times> event \<times> page" where
  "task_mouseenter_minimal this e s =
     (Normal, e, upd this (set_style (\<lambda>st. st\<lparr>transform := js ''translateX(8px)''\<rparr>)) s)"

definition task_mouseleave :: "nat \<Rightarrow> event \<Rightarrow> page \<Rightarrow> completion \<times> event \<times> page" where
  "task_mouseleave this e s =
     (Normal, e, upd this (set_style (\<lambda>st. st\<lparr>transform := js ''translateX(0)''\<rparr>)) s)"

text \<open>The click listener of the \<^verbatim>\<open>.task-toggle\<close> links (\<^verbatim>\<open>main.js\<close> only).\<close>

definition toggle_click :: "nat \<Rightarrow> event \<Rightarrow> page \<Rightarrow> completion \<times> event \<times> page" where
  "toggle_click this e s =
     (case closest (cls ''task-item'') this s of
        None \<Rightarrow> (Throw TypeError, e, s)
      | Some taskItem \<Rightarrow>
          (Normal, e,
           upd taskItem (set_style (\<lambda>st. st\<lparr>opacity := js ''0.5''\<rparr>))
             (upd taskItem (set_style (\<lambda>st. st\<lparr>transition := js ''all 0.3s ease''\<rparr>)) s)))"

text \<open>
  The click listener of the delete links. \<open>answer\<close> is what the user answers to the
  \<^verbatim>\<open>confirm\<close> box. The arrow function of the timer captures \<^verbatim>\<open>this\<close> and reads its
  \<^verbatim>\<open>href\<close> when it runs.
\<close>

definition confirm_text_main :: "jsstring \<Rightarrow> jsstring" where
  \<open>confirm_text_main taskName =
     [0xD83D, 0xDDD1, 0xFE0F] @ js '' Are you sure you want to delete:'' @ [0xA] @
     js ''"'' @ taskName @ js ''"?''\<close>

definition confirm_text_minimal :: "jsstring \<Rightarrow> jsstring" where
  \<open>confirm_text_minimal taskName = js ''Delete "'' @ taskName @ js ''"?''\<close>

definition msg_deleted_main :: jsstring where
  "msg_deleted_main = [0xD83D, 0xDDD1, 0xFE0F] @ js '' Task deleted!''"

definition msg_deleted_minimal :: jsstring where
  "msg_deleted_minimal = [0xD83D, 0xDDD1, 0xFE0F] @ js '' Task deleted''"

definition delete_click_main ::
  "nat \<Rightarrow> bool \<Rightarrow> event \<Rightarrow> page \<Rightarrow> completion \<times> event \<times> page" where
  "delete_click_main this answer e s =
     (let e1 = preventDefault e
      in case closest (cls ''task-item'') this s of
           None \<Rightarrow> (Throw TypeError, e1, s)
         | Some item \<Rightarrow>
             (case querySelector_in item (cls ''task-title'') s of
                None \<Rightarrow> (Throw TypeError, e1, s)
              | Some title \<Rightarrow>
                  (let taskName = textContent (obj s title);
                       s1 = confirm (confirm_text_main taskName) s
                   in if answer
                      then (Normal, e1,
                            setTimeout (Navigate this) 500
                              (showToast msg_deleted_main (js ''info'') s1))
                      else (Normal, e1, s1))))"

definition delete_click_minimal ::
  "nat \<Rightarrow> bool \<Rightarrow> event \<Rightarrow> page \<Rightarrow> completion \<times> event \<times> page" where
  "delete_click_minimal this answer e s =
     (let e1 = preventDefault e
      in case closest (cls ''task-item'') this s of
           None \<Rightarrow> (Throw TypeError, e1, s)
         | Some item \<Rightarrow>
             (case querySelector_in item (cls ''task-title'') s of
                None \<Rightarrow> (Throw TypeError, e1, s)
              | Some title \<Rightarrow>
                  (let taskName = textContent (obj s title);
                       s1 = confirm (confirm_text_minimal taskName) s
                   in if answer
                      then (Normal, e1,
                            setTimeout (Navigate this) 500
                              (showToast msg_deleted_minimal (js ''info'') s1))
                      else (Normal, e1, s1))))"

definition delete_links :: selector where
  "delete_links = [[[ClassSel (js ''task-actions'')], [TagSel (js ''a''), HrefContains (js ''delete_task'')]]]"

definition add_hover_main :: "nat \<Rightarrow> page \<Rightarrow> page" where
  "add_hover_main task s =
     addEventListener (Node task) MouseLeave TaskLeave
       (addEventListener (Node task) MouseEnter TaskEnter_main s)"

definition add_hover_minimal :: "nat \<Rightarrow> page \<Rightarrow> page" where
  "add_hover_minimal task s =
     addEventListener (Node task) MouseLeave TaskLeave
       (addEventListener (Node task) MouseEnter TaskEnter_minimal s)"

definition initTaskInteractions_main :: "page \<Rightarrow> page" where
  "initTaskInteractions_main s =
     (let s1 = fold add_hover_main (querySelectorAll (cls ''task-item'') s) s;
          s2 = fold (\<lambda>link. addEventListener (Node link) Click ToggleClick)
                 (querySelectorAll (cls ''task-toggle'') s1) s1
      in fold (\<lambda>link. addEventListener (Node link) Click DeleteClick_main)
           (querySelectorAll delete_links s2) s2)"

definition initTaskInteractions_minimal :: "page \<Rightarrow> page" where
  "initTaskInteractions_minimal s =
     (let s1 = fold add_hover_minimal (querySelectorAll (cls ''task-item'') s) s
      in fold (\<lambda>link. addEventListener (Node link) Click DeleteClick_minimal)
           (querySelectorAll delete_links s1) s1)"

section \<open>Weather updates, keyboard shortcut, emoji, risk levels\<close>

definition msg_location :: jsstring where
  "msg_location = [0xD83D, 0xDCCD] @ js '' Updating location...''"

definition locationForm_submit :: "event \<Rightarrow> page \<Rightarrow> completion \<times> event \<times> page" where
  "locationForm_submit e s = (Normal, e, showToast msg_location (js ''info'') s)"

definition add_location_listener :: "page \<Rightarrow> page" where
  "add_location_listener s =
     (case getElementById (js ''locationForm'') s of
        None \<Rightarrow> s
      | Some locationForm \<Rightarrow> addEventListener (Node locationForm) Submit LocationSubmit s)"

definition initWeatherUpdates_main :: "page \<Rightarrow> page" where
  "initWeatherUpdates_main s =
     add_location_listener
       (case querySelector (cls ''weather-card'') s of
          None \<Rightarrow> s
        | Some weatherCard \<Rightarrow> upd weatherCard (classList_add (js ''weather-loaded'')) s)"

definition initWeatherUpdates_minimal :: "page \<Rightarrow> page" where
  "initWeatherUpdates_minimal s =
     add_location_listener
       (case querySelector (cls ''weather-card'') s of
          None \<Rightarrow> s
        | Some weatherCard \<Rightarrow>
            upd weatherCard (set_style (\<lambda>st. st\<lparr>animation := js ''fadeIn 0.8s ease''\<rparr>)) s)"

definition msg_quick_add_main :: jsstring where
  "msg_quick_add_main = [0x2728] @ js '' Quick add task!''"

definition msg_quick_add_minimal :: jsstring where
  "msg_quick_add_minimal = [0x2728] @ js '' Quick add task''"

definition keydown_main :: "event \<Rightarrow> page \<Rightarrow> completion \<times> event \<times> page" where
  "keydown_main e s =
     (if (ctrlKey e \<or> metaKey e) \<and> key e = js ''k''
      then (let e1 = preventDefault e
            in case getElementById (js ''task_name'') s of
                 None \<Rightarrow> (Normal, e1, s)
               | Some taskInput \<Rightarrow>
                   (Normal, e1, showToast msg_quick_add_main (js ''info'') (focus taskInput s)))
      else (Normal, e, s))"

definition keydown_minimal :: "event \<Rightarrow> page \<Rightarrow> completion \<times> event \<times> page" where
  "keydown_minimal e s =
     (if (ctrlKey e \<or> metaKey e) \<and> key e = js ''k''
      then (let e1 = preventDefault e
            in case getElementById (js ''task_name'') s of
                 None \<Rightarrow> (Normal, e1, s)
               | Some taskInput \<Rightarrow>
                   (Normal, e1, showToast msg_quick_add_minimal (js ''info'') (focus taskInput s)))
      else (Normal, e, s))"

definition emoji_mouseenter :: "nat \<Rightarrow> event \<Rightarrow> page \<Rightarrow> completion \<times> event \<times> page" where
  "emoji_mouseenter this e s =
     (Normal, e, upd this (set_style (\<lambda>st. st\<lparr>transform := js ''scale(1.2) rotate(10deg)''\<rparr>)) s)"

definition emoji_mouseleave :: "nat \<Rightarrow> event \<Rightarrow> page \<Rightarrow> completion \<times> event \<times> page" where
  "emoji_mouseleave this e s =
     (Normal, e, upd this (set_style (\<lambda>st. st\<lparr>transform := js ''scale(1) rotate(0deg)''\<rparr>)) s)"

definition highlight_item :: "nat \<Rightarrow> page \<Rightarrow> page" where
  "highlight_item item s =
     (if js ''risk-high'' \<in> set (classList (obj s item))
      then upd item (set_style (\<lambda>st. st\<lparr>borderLeft := js ''4px solid #dc3545''\<rparr>)) s
      else if js ''risk-medium'' \<in> set (classList (obj s item))
      then upd item (set_style (\<lambda>st. st\<lparr>borderLeft := js ''4px solid #ffc107''\<rparr>)) s
      else if js ''risk-low'' \<in> set (classList (obj s item))
      then upd item (set_style (\<lambda>st. st\<lparr>borderLeft := js ''4px solid #17a2b8''\<rparr>)) s
      else s)"

definition highlightRiskLevels :: "page \<Rightarrow> page" where
  "highlightRiskLevels s =
     fold highlight_item (querySelectorAll [[[ClassContains (js ''risk-'')]]] s) s"

section \<open>Loading the scripts and dispatching events\<close>

text \<open>
  The top level of each script, and its \<^verbatim>\<open>DOMContentLoaded\<close> listener.
  \<^verbatim>\<open>console.log\<close> has no effect on the page.
\<close>

definition script_main :: "page \<Rightarrow> page" where
  "script_main s =
     highlightRiskLevels
       (setTimeout AnimateWeatherEmoji 500
         (addEventListener Document KeyDown Keydown_main
           (addEventListener Document DOMContentLoaded Load_main s)))"

definition load_main :: "page \<Rightarrow> page" where
  "load_main s =
     initWeatherUpdates_main
       (initTaskInteractions_main (initFormValidation_main (initAnimations_main s)))"

definition script_minimal :: "page \<Rightarrow> page" where
  "script_minimal s =
     addEventListener Document DOMContentLoaded AlertsLoad_minimal
       (addEventListener Document KeyDown Keydown_minimal
         (addEventListener Document DOMContentLoaded Load_minimal s))"

text \<open>
  The second \<^verbatim>\<open>DOMContentLoaded\<close> listener of the second script: every
  \<^verbatim>\<open>.alert-auto-hide\<close> element gets a 3000ms timer that fades it.
\<close>

definition autohide_alerts :: "page \<Rightarrow> page" where
  "autohide_alerts s =
     fold (\<lambda>banner. setTimeout (AlertFade banner) 3000)
       (querySelectorAll (cls ''alert-auto-hide'') s) s"

definition load_minimal :: "page \<Rightarrow> page" where
  "load_minimal s =
     initWeatherUpdates_minimal
       (initTaskInteractions_minimal
         (initFormValidation_minimal (initAnimations_minimal (initNavbar s))))"

text \<open>
  A listener runs with \<^verbatim>\<open>this\<close> bound to the target it was registered on. The
  listeners that use \<^verbatim>\<open>this\<close> as an element throw a TypeError on the window or the
  document, which have no \<^verbatim>\<open>style\<close>, \<^verbatim>\<open>value\<close> or \<^verbatim>\<open>closest\<close>.
\<close>

definition on_node ::
  "target \<Rightarrow> (nat \<Rightarrow> event \<Rightarrow> page \<Rightarrow> completion \<times> event \<times> page) \<Rightarrow>
   event \<Rightarrow> page \<Rightarrow> completion \<times> event \<times> page" where
  "on_node this f e s = (case this of Node n \<Rightarrow> f n e s | _ \<Rightarrow> (Throw TypeError, e, s))"

fun run_listener ::
  "listener \<Rightarrow> target \<Rightarrow> bool \<Rightarrow> event \<Rightarrow> page \<Rightarrow> completion \<times> event \<times> page" where
  "run_listener Load_main this answer e s = (Normal, e, load_main s)"
| "run_listener Load_minimal this answer e s = (Normal, e, load_minimal s)"
| "run_listener (NavbarScroll navbar) this answer e s = navbar_scroll navbar e s"
| "run_listener TaskSubmit_main this answer e s = taskForm_submit_main e s"
| "run_listener TaskSubmit_minimal this answer e s = taskForm_submit_minimal e s"
| "run_listener TaskInput_main this answer e s = on_node this taskInput_input_main e s"
| "run_listener TaskInput_minimal this answer e s = on_node this taskInput_input_minimal e s"
| "run_listener TaskEnter_main this answer e s = on_node this task_mouseenter_main e s"
| "run_listener TaskEnter_minimal this answer e s = on_node this task_mouseenter_minimal e s"
| "run_listener TaskLeave this answer e s = on_node this task_mouseleave e s"
| "run_listener ToggleClick this answer e s = on_node this toggle_click e s"
| "run_listener DeleteClick_main this answer e s =
     on_node this (\<lambda>n. delete_click_main n answer) e s"
| "run_listener DeleteClick_minimal this answer e s =
     on_node this (\<lambda>n. delete_click_minimal n answer) e s"
| "run_listener LocationSubmit this answer e s = locationForm_submit e s"
| "run_listener Keydown_main this answer e s = keydown_main e s"
| "run_listener Keydown_minimal this answer e s = keydown_minimal e s"
| "run_listener AlertsLoad_minimal this answer e s = (Normal, e, autohide_alerts s)"
| "run_listener EmojiEnter this answer e s = on_node this emoji_mouseenter e s"
| "run_listener EmojiLeave this answer e s = on_node this emoji_mouseleave e s"

text \<open>
  Dispatching an event at a target runs the listeners registered on it for that type,
  in the order they were added, over the list as it stood when the dispatch started.
  An exception ends the listener that threw it, is logged, and the next listener runs.
  Propagation through ancestors is not modelled: an event is dispatched at the target
  that holds the listener.
\<close>

fun run_listeners ::
  "(target \<times> event_type \<times> listener) list \<Rightarrow> target \<Rightarrow> event_type \<Rightarrow> bool \<Rightarrow>
   event \<Rightarrow> page \<Rightarrow> event \<times> page" where
  "run_listeners [] t ty answer e s = (e, s)"
| "run_listeners ((t', ty', l) # ls) t ty answer e s =
     (if t' = t \<and> ty' = ty
      then (case run_listener l t answer e s of
              (Normal, e', s') \<Rightarrow> run_listeners ls t ty answer e' s'
            | (Throw err, e', s') \<Rightarrow>
                run_listeners ls t ty answer e' (s'\<lparr>uncaught := uncaught s' @ [err]\<rparr>))
      else run_listeners ls t ty answer e s)"

definition dispatch :: "target \<Rightarrow> event_type \<Rightarrow> bool \<Rightarrow> event \<Rightarrow> page \<Rightarrow> event \<times> page" where
  "dispatch t ty answer e s = run_listeners (listeners s) t ty answer e s"

section \<open>The code paths of \<^verbatim>\<open>main.js\<close>\<close>

text \<open>
  Everything \<^verbatim>\<open>main.js\<close> ever runs is its top level, a listener it registered, a timer
  callback, or the observer callback. \<open>main_listener\<close> and \<open>main_callback\<close> tell the
  closures of \<^verbatim>\<open>main.js\<close> from those of the second script, and a page is \<open>main_only\<close>
  when its registered listeners and pending timers are all closures of \<^verbatim>\<open>main.js\<close>;
  \<open>exec_main\<close> runs one code path on a page.
  \<open>reveals p x\<close> holds when \<open>p\<close> is a report of the observer that finds the observed
  element \<open>x\<close> intersecting.
\<close>

fun main_listener :: "listener \<Rightarrow> bool" where
  "main_listener Load_minimal = False"
| "main_listener (NavbarScroll navbar) = False"
| "main_listener TaskSubmit_minimal = False"
| "main_listener TaskInput_minimal = False"
| "main_listener TaskEnter_minimal = False"
| "main_listener DeleteClick_minimal = False"
| "main_listener Keydown_minimal = False"
| "main_listener AlertsLoad_minimal = False"
| "main_listener l = True"

fun main_callback :: "callback \<Rightarrow> bool" where
  "main_callback (AlertFade banner) = False"
| "main_callback (AlertClose banner) = False"
| "main_callback cb = True"

definition main_only :: "page \<Rightarrow> bool" where
  "main_only s =
     (list_all (\<lambda>r. main_listener (snd (snd r))) (listeners s) \<and>
      list_all (\<lambda>x. main_callback (snd x)) (timers s))"

datatype main_path =
  Script
| Event target event_type bool event
| Timer
| Intersection "entry list"

fun exec_main :: "main_path \<Rightarrow> page \<Rightarrow> page" where
  "exec_main Script s = script_main s"
| "exec_main (Event t ty answer e) s = snd (dispatch t ty answer e s)"
| "exec_main Timer s = (case earliest (timers s) of None \<Rightarrow> s | Some x \<Rightarrow> fire x s)"
| "exec_main (Intersection entries) s = deliver entries s"

definition intersecting :: "nat \<Rightarrow> entry list \<Rightarrow> bool" where
  "intersecting x entries = list_ex (\<lambda>en. entry_target en = x \<and> isIntersecting en) entries"

fun reveals :: "main_path \<Rightarrow> nat \<Rightarrow> page \<Rightarrow> bool" where
  "reveals (Intersection entries) x s = (x \<in> set (observed s) \<and> intersecting x entries)"
| "reveals p x s = False"

section \<open>Sample pages and events\<close>

text \<open>
  \<open>demo_page v\<close> has a navbar, the add-task form (the task field holding \<open>v\<close>, its hint,
  the submit button) and one task item, which is also an animated element, with its
  title, a toggle link and a delete link. \<open>bare_page\<close> has a single paragraph and none
  of the elements the scripts look for. \<open>ctrl_k\<close> is the keydown of Ctrl+K as the
  browser reports it with Caps Lock and Shift off, \<open>ctrl_upper_k\<close> the same with Caps
  Lock on or Shift held, where the key is reported as \<^verbatim>\<open>K\<close>. \<open>loaded_main\<close> is the sample page after
  \<^verbatim>\<open>main.js\<close> has run and \<^verbatim>\<open>DOMContentLoaded\<close> has fired, \<open>toggled_main\<close> that page after a
  click on the toggle link.
\<close>

definition el :: "string \<Rightarrow> string \<Rightarrow> string list \<Rightarrow> element" where
  "el t i cs = (new_element (js t))\<lparr>ident := js i, classList := map js cs\<rparr>"

definition demo_obj :: "jsstring \<Rightarrow> nat \<Rightarrow> element" where
  "demo_obj v n =
     (if n = 0 then el ''body'' [] []
      else if n = 1 then el ''nav'' [] [''navbar-custom'']
      else if n = 2 then el ''form'' ''addTaskForm'' []
      else if n = 3 then (el ''input'' ''task_name'' [])\<lparr>input_value := v\<rparr>
      else if n = 4 then el ''small'' [] [''form-text'']
      else if n = 5 then el ''button'' ''submitTaskBtn'' []
      else if n = 6 then el ''div'' [] [''task-item'', ''animate-fade-in'']
      else if n = 7 then (el ''span'' [] [''task-title''])\<lparr>textContent := js ''Jog''\<rparr>
      else if n = 8 then el ''div'' [] [''task-actions'']
      else if n = 9 then (el ''a'' [] [''task-toggle''])\<lparr>href := js ''/toggle_task/1''\<rparr>
      else if n = 10 then (el ''a'' [] [])\<lparr>href := js ''/delete_task/1''\<rparr>
      else new_element [])"

definition demo_page :: "jsstring \<Rightarrow> page" where
  "demo_page v =
     \<lparr>shape = Tree 0 [Tree 1 [], Tree 2 [Tree 3 [], Tree 4 [], Tree 5 []],
                      Tree 6 [Tree 7 [], Tree 8 [Tree 9 [], Tree 10 []]]],
      obj = demo_obj v, next_id = 11, activeElement = None,
      location_href = js ''/'', scrollY = 0, now = 0, timers = [], listeners = [],
      observed = [], dialogs = [], uncaught = [],
      bootstrap_closed = []\<rparr>"

definition bare_page :: page where
  "bare_page =
     \<lparr>shape = Tree 0 [Tree 1 []],
      obj = (\<lambda>n. if n = 0 then el ''body'' [] [] else if n = 1 then el ''p'' [] [] else new_element []),
      next_id = 2, activeElement = None,
      location_href = js ''/about'', scrollY = 0, now = 0, timers = [], listeners = [],
      observed = [], dialogs = [], uncaught = [],
      bootstrap_closed = []\<rparr>"

definition plain_event :: event where
  "plain_event = \<lparr>ctrlKey = False, metaKey = False, key = [], defaultPrevented = False\<rparr>"

definition ctrl_k :: event where
  "ctrl_k = \<lparr>ctrlKey = True, metaKey = False, key = js ''k'', defaultPrevented = False\<rparr>"

definition ctrl_upper_k :: event where
  "ctrl_upper_k = \<lparr>ctrlKey = True, metaKey = False, key = js ''K'', defaultPrevented = False\<rparr>"

definition seen :: "nat \<Rightarrow> bool \<Rightarrow> entry" where
  "seen x b = \<lparr>entry_target = x, isIntersecting = b\<rparr>"

definition loaded_main :: page where
  "loaded_main =
     exec_main (Event Document DOMContentLoaded False plain_event)
       (exec_main Script (demo_page []))"

definition toggled_main :: page where
  "toggled_main = exec_main (Event (Node 9) Click False plain_event) loaded_main"

section \<open>Vocabulary of the claims\<close>

text \<open>
  \<^verbatim>\<open>createElement\<close> hands out the identity \<open>next_id\<close>. On a page that scripts and the
  browser have built, every identity in the tree and every toast a pending timer names
  was handed out before: the page is \<open>allocated\<close>.
\<close>

definition toast_of :: "callback \<Rightarrow> nat option" where
  "toast_of cb =
     (case cb of
        ToastShow k \<Rightarrow> Some k
      | ToastHide k \<Rightarrow> Some k
      | ToastRemove k \<Rightarrow> Some k
      | _ \<Rightarrow> None)"

definition allocated :: "page \<Rightarrow> bool" where
  "allocated s =
     (list_all (\<lambda>n. n < next_id s) (flat (shape s)) \<and>
      list_all (\<lambda>x. case toast_of (snd x) of Some k \<Rightarrow> k < next_id s | None \<Rightarrow> True)
        (timers s))"

text \<open>
  A toast is on the page while it is a child of the body (\<open>attached\<close>), and visible
  while its class list holds \<^verbatim>\<open>show\<close> (\<open>shown\<close>). \<open>notified c m s s'\<close>: from \<open>s\<close> to \<open>s'\<close> a
  new last child of the body appeared, with the classes \<^verbatim>\<open>toast-notification\<close> and \<open>c\<close>
  and the content \<open>m\<close>. An element is \<open>revealed\<close> when it has the opacity and transform
  the observer callback writes. \<open>navigations\<close> are the pending delayed navigations.
\<close>

definition attached :: "nat \<Rightarrow> page \<Rightarrow> bool" where
  "attached k s = (k \<in> set (body_children s))"

definition shown :: "nat \<Rightarrow> page \<Rightarrow> bool" where
  "shown k s = (js ''show'' \<in> set (classList (obj s k)))"

definition notified :: "jsstring \<Rightarrow> jsstring \<Rightarrow> page \<Rightarrow> page \<Rightarrow> bool" where
  "notified c m s s' =
     (body_children s' = body_children s @ [next_id s] \<and>
      classList (obj s' (next_id s)) = [js ''toast-notification'', c] \<and>
      innerHTML (obj s' (next_id s)) = m)"

definition revealed :: "nat \<Rightarrow> page \<Rightarrow> bool" where
  "revealed x s =
     (opacity (style (obj s x)) = js ''1'' \<and> transform (style (obj s x)) = js ''translateY(0)'')"

fun is_navigate :: "callback \<Rightarrow> bool" where
  "is_navigate (Navigate link) = True"
| "is_navigate cb = False"

definition navigations :: "page \<Rightarrow> (nat \<times> callback) list" where
  "navigations s = filter (\<lambda>x. is_navigate (snd x)) (timers s)"

text \<open>The listeners an initializer adds for one element, or for an element that may be absent.\<close>

definition hover_main :: "nat \<Rightarrow> (target \<times> event_type \<times> listener) list" where
  "hover_main n = [(Node n, MouseEnter, TaskEnter_main), (Node n, MouseLeave, TaskLeave)]"

definition hover_minimal :: "nat \<Rightarrow> (target \<times> event_type \<times> listener) list" where
  "hover_minimal n = [(Node n, MouseEnter, TaskEnter_minimal), (Node n, MouseLeave, TaskLeave)]"

definition on_present :: "nat option \<Rightarrow> event_type \<Rightarrow> listener \<Rightarrow> (target \<times> event_type \<times> listener) list" where
  "on_present found ty l = (case found of None \<Rightarrow> [] | Some n \<Rightarrow> [(Node n, ty, l)])"

section \<open>Invariants\<close>

text \<open>
  \<open>lifecycle k t0\<close> is the state machine of the toast \<open>k\<close> created at time \<open>t0\<close>:
  inserted, shown, hidden, removed, each phase with the timers of \<open>k\<close> that are still
  pending and the bounds on the clock. \<open>navigating link t0 loc0 h\<close> is the same for the
  delayed navigation to the \<^verbatim>\<open>href\<close> \<open>h\<close> of \<open>link\<close>, set at \<open>t0\<close> on a page at \<open>loc0\<close>.
  \<open>dims x s s'\<close> relates a page to a later one: identities are only added, the
  listeners stay those of \<^verbatim>\<open>main.js\<close>, and the opacity of \<open>x\<close> is as before or \<^verbatim>\<open>0.5\<close>.
\<close>

definition pending_for :: "nat \<Rightarrow> page \<Rightarrow> (nat \<times> callback) list" where
  "pending_for k s = filter (\<lambda>x. toast_of (snd x) = Some k) (timers s)"

definition lifecycle :: "nat \<Rightarrow> nat \<Rightarrow> page \<Rightarrow> bool" where
  "lifecycle k t0 s =
     ((pending_for k s = [(t0 + 100, ToastShow k), (t0 + 3000, ToastHide k)] \<and>
       attached k s \<and> \<not> shown k s \<and> now s \<le> t0 + 100) \<or>
      (pending_for k s = [(t0 + 3000, ToastHide k)] \<and>
       attached k s \<and> shown k s \<and> t0 + 100 \<le> now s \<and> now s \<le> t0 + 3000) \<or>
      (pending_for k s = [(t0 + 3300, ToastRemove k)] \<and>
       attached k s \<and> \<not> shown k s \<and> t0 + 3000 \<le> now s \<and> now s \<le> t0 + 3300) \<or>
      (pending_for k s = [] \<and> \<not> attached k s \<and> \<not> shown k s \<and> t0 + 3300 \<le> now s))"

definition navigating :: "nat \<Rightarrow> nat \<Rightarrow> jsstring \<Rightarrow> jsstring \<Rightarrow> page \<Rightarrow> bool" where
  "navigating link t0 loc0 h u =
     (href (obj u link) = h \<and>
      ((navigations u = [(t0 + 500, Navigate link)] \<and> location_href u = loc0 \<and>
        now u \<le> t0 + 500) \<or>
       (navigations u = [] \<and> location_href u = h \<and> t0 + 500 \<le> now u)))"

definition dims :: "nat \<Rightarrow> page \<Rightarrow> page \<Rightarrow> bool" where
  "dims x s s' =
     (next_id s \<le> next_id s' \<and>
      (main_only s \<longrightarrow> main_only s') \<and>
      (x < next_id s \<longrightarrow>
         opacity (style (obj s' x)) = opacity (style (obj s x)) \<or>
         opacity (style (obj s' x)) = js ''0.5''))"

section \<open>Lemmas\<close>

subsection \<open>What \<open>showToast\<close> writes\<close>

lemma showToast_next_id [simp]: "next_id (showToast m ty s) = Suc (next_id s)"
  by (simp add: showToast_def createElement_def upd_def appendChild_body_def setTimeout_def)

lemma showToast_shape [simp]:
  "shape (showToast m ty s) = Tree (root (shape s)) (kids (shape s) @ [Tree (next_id s) []])"
  by (simp add: showToast_def createElement_def upd_def appendChild_body_def setTimeout_def)

lemma showToast_obj:
  "obj (showToast m ty s) =
     (obj s)(next_id s := (new_element (js ''div''))
        \<lparr>classList := tokens (js ''toast-notification toast-'' @ ty), innerHTML := m\<rparr>)"
  by (simp add: showToast_def createElement_def upd_def appendChild_body_def setTimeout_def
      set_className_def)

lemma showToast_timers [simp]:
  "timers (showToast m ty s) =
     timers s @ [(now s + 100, ToastShow (next_id s)), (now s + 3000, ToastHide (next_id s))]"
  by (simp add: showToast_def createElement_def upd_def appendChild_body_def setTimeout_def)

lemma showToast_rest [simp]:
  "now (showToast m ty s) = now s"
  "activeElement (showToast m ty s) = activeElement s"
  "location_href (showToast m ty s) = location_href s"
  "listeners (showToast m ty s) = listeners s"
  "observed (showToast m ty s) = observed s"
  "dialogs (showToast m ty s) = dialogs s"
  "uncaught (showToast m ty s) = uncaught s"
  "scrollY (showToast m ty s) = scrollY s"
  by (simp_all add: showToast_def createElement_def upd_def appendChild_body_def setTimeout_def)

lemma body_children_showToast [simp]:
  "body_children (showToast m ty s) = body_children s @ [next_id s]"
  by (simp add: body_children_def)

lemma showToasts_children:
  "body_children (fold (\<lambda>c. showToast (fst c) (snd c)) calls s) =
     body_children s @ [next_id s ..< next_id s + length calls] \<and>
   next_id (fold (\<lambda>c. showToast (fst c) (snd c)) calls s) = next_id s + length calls"
proof (induction calls arbitrary: s)
  case Nil
  then show ?case by simp
next
  case (Cons c calls)
  show ?case
    by (simp add: Cons.IH upt_conv_Cons del: upt_Suc)
qed

lemma run_callback_frame:
  "toast_of cb = Some k \<Longrightarrow> n \<noteq> k \<Longrightarrow>
     obj (run_callback cb s) n = obj s n \<and>
     (n \<in> set (body_children (run_callback cb s)) \<longleftrightarrow> n \<in> set (body_children s))"
  by (cases cb)
     (auto simp: toast_of_def upd_def setTimeout_def removeChild_body_def body_children_def)

subsection \<open>The event loop\<close>

lemma advance_rule:
  assumes "I s"
    and "\<And>s x. I s \<Longrightarrow> earliest (timers s) = Some x \<Longrightarrow> fst x \<le> T \<Longrightarrow> I (fire x s)"
    and "\<And>s. I s \<Longrightarrow> list_all (\<lambda>y. T < fst y) (timers s) \<Longrightarrow> Q (s\<lparr>now := max (now s) T\<rparr>)"
  shows "Q (advance T s)"
  using assms
proof (induction T s rule: advance.induct)
  case (1 T s)
  note inv = "1.prems"(1) and step = "1.prems"(2) and fin = "1.prems"(3)
  show ?case
  proof (cases "earliest (timers s)")
    case None
    then have "timers s = []" by (simp add: earliest_None)
    then have "Q (s\<lparr>now := max (now s) T\<rparr>)"
      using fin [OF inv] by simp
    with None show ?thesis
      by (simp add: advance.simps [of T s])
  next
    case (Some x)
    show ?thesis
    proof (cases "fst x \<le> T")
      case True
      have "I (fire x s)"
        using step [OF inv Some True] .
      then have "Q (advance T (fire x s))"
        by (rule "1.IH" [OF Some True]) (fact step, fact fin)
      with Some True show ?thesis
        by (simp add: advance.simps [of T s])
    next
      case False
      have "list_all (\<lambda>y. T < fst y) (timers s)"
        unfolding list_all_iff using earliest_le [OF Some] False by fastforce
      then have "Q (s\<lparr>now := max (now s) T\<rparr>)"
        using fin [OF inv] by simp
      with Some False show ?thesis
        by (simp add: advance.simps [of T s])
    qed
  qed
qed

lemma now_run_callback [simp]: "now (run_callback cb s) = now s"
  by (cases cb)
     (simp_all add: upd_def setTimeout_def removeChild_body_def animateWeatherEmoji_def
       addEventListener_def split: option.splits)

lemma now_fire [simp]: "now (fire x s) = max (now s) (fst x)"
  by (simp add: fire_def)

lemma timers_fire:
  "timers (fire x s) = remove1 x (timers s) @ spawned (max (now s) (fst x)) (snd x)"
  by (simp add: fire_def timers_run_callback)

lemma run_callback_other:
  "toast_of cb \<noteq> Some k \<Longrightarrow>
     classList (obj (run_callback cb s) k) = classList (obj s k) \<and>
     (k \<in> set (body_children (run_callback cb s)) \<longleftrightarrow> k \<in> set (body_children s))"
  by (cases cb)
     (auto simp: toast_of_def upd_def setTimeout_def removeChild_body_def body_children_def
       animateWeatherEmoji_def addEventListener_def set_style_def split: option.splits)

lemma fire_other:
  assumes "toast_of (snd x) \<noteq> Some k"
  shows "pending_for k (fire x s) = pending_for k s"
    and "attached k (fire x s) = attached k s"
    and "shown k (fire x s) = shown k s"
proof -
  have "\<not> (\<lambda>y. toast_of (snd y) = Some k) x"
    using assms by simp
  then have "filter (\<lambda>y. toast_of (snd y) = Some k) (remove1 x (timers s)) =
             filter (\<lambda>y. toast_of (snd y) = Some k) (timers s)"
    by (induction "timers s" arbitrary: s) (auto simp: filter_remove1)
  then show "pending_for k (fire x s) = pending_for k s"
    using assms
    by (cases "snd x") (simp_all add: pending_for_def timers_fire toast_of_def)
  show "attached k (fire x s) = attached k s"
    using run_callback_other [OF assms] assms
    by (simp add: attached_def fire_def body_children_def del: run_callback.simps)
  show "shown k (fire x s) = shown k s"
    using run_callback_other [OF assms]
    by (simp add: shown_def fire_def del: run_callback.simps)
qed

lemma pending_for_fire_own:
  assumes "toast_of (snd x) = Some k"
  shows "pending_for k (fire x s) =
           remove1 x (pending_for k s) @ spawned (max (now s) (fst x)) (snd x)"
  using assms
  by (cases "snd x") (simp_all add: pending_for_def timers_fire toast_of_def filter_remove1)

lemma fire_ToastShow:
  "attached k (fire (d, ToastShow k) s) = attached k s" "shown k (fire (d, ToastShow k) s)"
  by (simp_all add: attached_def shown_def fire_def upd_def body_children_def classList_add_def)

lemma fire_ToastHide:
  "attached k (fire (d, ToastHide k) s) = attached k s" "\<not> shown k (fire (d, ToastHide k) s)"
  by (simp_all add: attached_def shown_def fire_def upd_def body_children_def
      classList_remove_def setTimeout_def)

lemma fire_ToastRemove:
  "\<not> attached k (fire (d, ToastRemove k) s)"
  "shown k (fire (d, ToastRemove k) s) = shown k s"
  by (auto simp: attached_def shown_def fire_def body_children_def removeChild_body_def)

lemma lifecycle_step:
  assumes inv: "lifecycle k t0 s"
    and ear: "earliest (timers s) = Some x"
  shows "lifecycle k t0 (fire x s)"
proof (cases "toast_of (snd x) = Some k")
  case False
  have le: "y \<in> set (pending_for k s) \<Longrightarrow> fst x \<le> fst y" for y
    using earliest_le [OF ear, of y] by (simp add: pending_for_def)
  from inv show ?thesis
    unfolding lifecycle_def fire_other [OF False] now_fire
    by (elim disjE) (use le in force)+
next
  case True
  have xin: "x \<in> set (pending_for k s)"
    using earliest_in [OF ear] True by (simp add: pending_for_def)
  have le: "y \<in> set (pending_for k s) \<Longrightarrow> fst x \<le> fst y" for y
    using earliest_le [OF ear, of y] by (simp add: pending_for_def)
  from inv consider
      (p0) "pending_for k s = [(t0 + 100, ToastShow k), (t0 + 3000, ToastHide k)]"
           "attached k s" "\<not> shown k s" "now s \<le> t0 + 100"
    | (p1) "pending_for k s = [(t0 + 3000, ToastHide k)]"
           "attached k s" "shown k s" "t0 + 100 \<le> now s" "now s \<le> t0 + 3000"
    | (p2) "pending_for k s = [(t0 + 3300, ToastRemove k)]"
           "attached k s" "\<not> shown k s" "t0 + 3000 \<le> now s" "now s \<le> t0 + 3300"
    | (p3) "pending_for k s = []"
    unfolding lifecycle_def by blast
  then show ?thesis
  proof cases
    case p0
    have "x = (t0 + 100, ToastShow k)"
      using xin le [of "(t0 + 100, ToastShow k)"] p0(1) by auto
    then show ?thesis
      using p0 pending_for_fire_own [OF True, of s]
      by (simp add: lifecycle_def fire_ToastShow)
  next
    case p1
    have "x = (t0 + 3000, ToastHide k)"
      using xin p1(1) by auto
    then show ?thesis
      using p1 pending_for_fire_own [OF True, of s]
      by (simp add: lifecycle_def fire_ToastHide max_def)
  next
    case p2
    have "x = (t0 + 3300, ToastRemove k)"
      using xin p2(1) by auto
    then show ?thesis
      using p2 pending_for_fire_own [OF True, of s]
      by (simp add: lifecycle_def fire_ToastRemove)
  next
    case p3
    with xin show ?thesis by simp
  qed
qed

lemma lifecycle_showToast:
  assumes "allocated s" and "js ''show'' \<notin> set (tokens (js ''toast-notification toast-'' @ ty))"
  shows "lifecycle (next_id s) (now s) (showToast m ty s)"
proof -
  have "filter (\<lambda>x. toast_of (snd x) = Some (next_id s)) (timers s) = []"
    using assms(1) by (auto simp: allocated_def list_all_iff filter_empty_conv)
  then have "pending_for (next_id s) (showToast m ty s) =
             [(now s + 100, ToastShow (next_id s)), (now s + 3000, ToastHide (next_id s))]"
    by (simp add: pending_for_def toast_of_def)
  moreover have "attached (next_id s) (showToast m ty s)"
    by (simp add: attached_def)
  moreover have "\<not> shown (next_id s) (showToast m ty s)"
    using assms(2) by (simp add: shown_def showToast_obj)
  ultimately show ?thesis
    by (simp add: lifecycle_def)
qed

lemma lifecycle_at:
  assumes "allocated s" and "js ''show'' \<notin> set (tokens (js ''toast-notification toast-'' @ ty))"
  shows "now (advance (now s + t) (showToast m ty s)) = now s + t \<and>
         (attached (next_id s) (advance (now s + t) (showToast m ty s)) \<longleftrightarrow> t < 3300) \<and>
         (shown (next_id s) (advance (now s + t) (showToast m ty s)) \<longleftrightarrow> 100 \<le> t \<and> t < 3000)"
proof (rule advance_rule [where I = "\<lambda>u. lifecycle (next_id s) (now s) u \<and> now u \<le> now s + t"])
  show "lifecycle (next_id s) (now s) (showToast m ty s) \<and> now (showToast m ty s) \<le> now s + t"
    using lifecycle_showToast [OF assms] by simp
next
  fix u x
  assume "lifecycle (next_id s) (now s) u \<and> now u \<le> now s + t"
    and "earliest (timers u) = Some x" and "fst x \<le> now s + t"
  then show "lifecycle (next_id s) (now s) (fire x u) \<and> now (fire x u) \<le> now s + t"
    by (simp add: lifecycle_step)
next
  fix u
  assume inv: "lifecycle (next_id s) (now s) u \<and> now u \<le> now s + t"
    and late: "list_all (\<lambda>y. now s + t < fst y) (timers u)"
  have late': "y \<in> set (pending_for (next_id s) u) \<Longrightarrow> now s + t < fst y" for y
    using late by (simp add: pending_for_def list_all_iff)
  have frame: "attached k (u\<lparr>now := v\<rparr>) = attached k u" "shown k (u\<lparr>now := v\<rparr>) = shown k u" for k v
    by (simp_all add: attached_def shown_def body_children_def)
  from inv show "now (u\<lparr>now := max (now u) (now s + t)\<rparr>) = now s + t \<and>
      (attached (next_id s) (u\<lparr>now := max (now u) (now s + t)\<rparr>) \<longleftrightarrow> t < 3300) \<and>
      (shown (next_id s) (u\<lparr>now := max (now u) (now s + t)\<rparr>) \<longleftrightarrow> 100 \<le> t \<and> t < 3000)"
    unfolding frame lifecycle_def
    by (elim conjE disjE) (use late' in force)+
qed

subsection \<open>Sample values\<close>

lemma info_tokens:
  "tokens (js ''toast-notification toast-'' @ js ''info'') =
     [js ''toast-notification'', js ''toast-info'']"
  by (simp add: tokens_def js_def is_ascii_whitespace_def)

lemma warning_tokens:
  "tokens (js ''toast-notification toast-'' @ js ''warning'') =
     [js ''toast-notification'', js ''toast-warning'']"
  by (simp add: tokens_def js_def is_ascii_whitespace_def)

lemma allocated_demo_page: "allocated (demo_page v)"
  by (simp add: allocated_def demo_page_def)

subsection \<open>Registration of listeners\<close>

lemma matches_cong:
  "shape s' = shape s \<Longrightarrow> obj s' = obj s \<Longrightarrow> matches s' sel = matches s sel"
  by (rule ext) (simp add: matches_def matches_chain_def cong: list.case_cong)

lemma query_listeners [simp]:
  "querySelectorAll sel (s\<lparr>listeners := ls\<rparr>) = querySelectorAll sel s"
  "querySelector sel (s\<lparr>listeners := ls\<rparr>) = querySelector sel s"
  "getElementById i (s\<lparr>listeners := ls\<rparr>) = getElementById i s"
  by (simp_all add: querySelectorAll_def querySelector_def getElementById_def
      matches_cong [of "s\<lparr>listeners := ls\<rparr>" s])

lemma fold_addEventListener:
  "fold (\<lambda>n. addEventListener (Node n) ty l) xs s =
     s\<lparr>listeners := listeners s @ map (\<lambda>n. (Node n, ty, l)) xs\<rparr>"
  by (induction xs arbitrary: s) (simp_all add: addEventListener_def)

lemma fold_add_hover_main:
  "fold add_hover_main xs s = s\<lparr>listeners := listeners s @ concat (map hover_main xs)\<rparr>"
  by (induction xs arbitrary: s) (simp_all add: add_hover_main_def addEventListener_def hover_main_def)

lemma fold_add_hover_minimal:
  "fold add_hover_minimal xs s = s\<lparr>listeners := listeners s @ concat (map hover_minimal xs)\<rparr>"
  by (induction xs arbitrary: s)
     (simp_all add: add_hover_minimal_def addEventListener_def hover_minimal_def)

lemma listeners_initTaskInteractions_main:
  "listeners (initTaskInteractions_main s) =
     listeners s @
     concat (map hover_main (querySelectorAll (cls ''task-item'') s)) @
     map (\<lambda>n. (Node n, Click, ToggleClick)) (querySelectorAll (cls ''task-toggle'') s) @
     map (\<lambda>n. (Node n, Click, DeleteClick_main)) (querySelectorAll delete_links s)"
  by (simp add: initTaskInteractions_main_def fold_add_hover_main fold_addEventListener Let_def)

lemma listeners_initTaskInteractions_minimal:
  "listeners (initTaskInteractions_minimal s) =
     listeners s @
     concat (map hover_minimal (querySelectorAll (cls ''task-item'') s)) @
     map (\<lambda>n. (Node n, Click, DeleteClick_minimal)) (querySelectorAll delete_links s)"
  by (simp add: initTaskInteractions_minimal_def fold_add_hover_minimal fold_addEventListener Let_def)

lemma listeners_initFormValidation_main:
  "listeners (initFormValidation_main s) =
     listeners s @
     on_present (getElementById (js ''addTaskForm'') s) Submit TaskSubmit_main @
     on_present (getElementById (js ''task_name'') s) Input TaskInput_main"
  by (simp add: initFormValidation_main_def addEventListener_def on_present_def Let_def
      split: option.splits)

lemma listeners_initFormValidation_minimal:
  "listeners (initFormValidation_minimal s) =
     listeners s @
     on_present (getElementById (js ''addTaskForm'') s) Submit TaskSubmit_minimal @
     on_present (getElementById (js ''task_name'') s) Input TaskInput_minimal"
  by (simp add: initFormValidation_minimal_def addEventListener_def on_present_def Let_def
      split: option.splits)

subsection \<open>Notifications\<close>

lemma notified_info: "notified (js ''toast-info'') m s (showToast m (js ''info'') s)"
  by (simp add: notified_def showToast_obj info_tokens)

lemma getElementById_flat: "getElementById i s = Some n \<Longrightarrow> n \<in> set (flat (shape s))"
  by (auto simp: getElementById_def find_Some_iff)

lemma allocated_less: "allocated s \<Longrightarrow> n \<in> set (flat (shape s)) \<Longrightarrow> n < next_id s"
  by (simp add: allocated_def list_all_iff)


lemma listeners_highlight_item [simp]: "listeners (highlight_item n s) = listeners s"
  by (simp add: highlight_item_def upd_def)

lemma listeners_highlightRiskLevels [simp]: "listeners (highlightRiskLevels s) = listeners s"
proof -
  have "listeners (fold highlight_item xs s) = listeners s" for xs
    by (induction xs arbitrary: s) simp_all
  then show ?thesis
    by (simp add: highlightRiskLevels_def)
qed

lemma getElementById_demo:
  "getElementById (js ''task_name'') (demo_page v) = Some 3"
  "getElementById (js ''submitTaskBtn'') (demo_page v) = Some 5"
  "getElementById (js ''addTaskForm'') (demo_page v) = Some 2"
  by (simp_all add: getElementById_def demo_page_def demo_obj_def el_def js_def)

lemma upd_fields [simp]:
  "shape (upd n f s) = shape s" "next_id (upd n f s) = next_id s"
  "body_children (upd n f s) = body_children s" "activeElement (upd n f s) = activeElement s"
  "timers (upd n f s) = timers s" "now (upd n f s) = now s" "dialogs (upd n f s) = dialogs s"
  "location_href (upd n f s) = location_href s" "listeners (upd n f s) = listeners s"
  "observed (upd n f s) = observed s" "uncaught (upd n f s) = uncaught s"
  by (simp_all add: upd_def body_children_def)

lemma focus_fields [simp]:
  "shape (focus n s) = shape s" "next_id (focus n s) = next_id s" "obj (focus n s) = obj s"
  "body_children (focus n s) = body_children s" "activeElement (focus n s) = Some n"
  "timers (focus n s) = timers s" "now (focus n s) = now s" "dialogs (focus n s) = dialogs s"
  "location_href (focus n s) = location_href s" "listeners (focus n s) = listeners s"
  "observed (focus n s) = observed s" "uncaught (focus n s) = uncaught s"
  by (simp_all add: focus_def body_children_def)

lemma alert_fields [simp]:
  "shape (alert m s) = shape s" "next_id (alert m s) = next_id s" "obj (alert m s) = obj s"
  "body_children (alert m s) = body_children s" "activeElement (alert m s) = activeElement s"
  "timers (alert m s) = timers s" "now (alert m s) = now s"
  "dialogs (alert m s) = dialogs s @ [Alert m]"
  "location_href (alert m s) = location_href s" "listeners (alert m s) = listeners s"
  "observed (alert m s) = observed s" "uncaught (alert m s) = uncaught s"
  by (simp_all add: alert_def body_children_def)

lemma confirm_fields [simp]:
  "shape (confirm m s) = shape s" "next_id (confirm m s) = next_id s" "obj (confirm m s) = obj s"
  "body_children (confirm m s) = body_children s" "activeElement (confirm m s) = activeElement s"
  "timers (confirm m s) = timers s" "now (confirm m s) = now s"
  "dialogs (confirm m s) = dialogs s @ [Confirm m]"
  "location_href (confirm m s) = location_href s" "listeners (confirm m s) = listeners s"
  "observed (confirm m s) = observed s" "uncaught (confirm m s) = uncaught s"
  by (simp_all add: confirm_def body_children_def)

lemma notified_info':
  "next_id s' = next_id s \<Longrightarrow> body_children s' = body_children s \<Longrightarrow>
     notified (js ''toast-info'') m s (showToast m (js ''info'') s')"
  by (simp add: notified_def showToast_obj info_tokens)

lemma notified_warning':
  "next_id s' = next_id s \<Longrightarrow> body_children s' = body_children s \<Longrightarrow>
     notified (js ''toast-warning'') m s (showToast m (js ''warning'') s')"
  by (simp add: notified_def showToast_obj warning_tokens)

lemma notified_focus [simp]: "notified c m s (focus n s') = notified c m s s'"
  by (simp add: notified_def)

lemma demo_value [simp]: "input_value (obj (demo_page v) 3) = v"
  by (simp add: demo_page_def demo_obj_def el_def)

subsection \<open>Delayed navigation\<close>

lemma href_run_callback [simp]: "href (obj (run_callback cb u) n) = href (obj u n)"
  by (cases cb)
     (simp_all add: upd_def setTimeout_def removeChild_body_def animateWeatherEmoji_def
       addEventListener_def classList_add_def classList_remove_def set_style_def
       split: option.splits)

lemma location_run_callback:
  "\<not> is_navigate cb \<Longrightarrow> location_href (run_callback cb u) = location_href u"
  by (cases cb)
     (simp_all add: upd_def setTimeout_def removeChild_body_def animateWeatherEmoji_def
       addEventListener_def split: option.splits)

lemma navigations_fire:
  "navigations (fire x u) = remove1 x (navigations u)"
  by (cases "snd x") (simp_all add: navigations_def timers_fire filter_remove1)

lemma navigating_step:
  assumes inv: "navigating link t0 loc0 h u"
    and ear: "earliest (timers u) = Some x"
  shows "navigating link t0 loc0 h (fire x u)"
proof (cases "is_navigate (snd x)")
  case False
  have "x \<notin> set (navigations u)"
    using False by (simp add: navigations_def)
  then have n: "navigations (fire x u) = navigations u"
    by (simp add: navigations_fire remove1_idem)
  have l: "location_href (fire x u) = location_href u"
    using False by (simp add: fire_def location_run_callback del: run_callback.simps)
  have h: "href (obj (fire x u) link) = href (obj u link)"
    by (simp add: fire_def del: run_callback.simps)
  have le: "y \<in> set (navigations u) \<Longrightarrow> fst x \<le> fst y" for y
    using earliest_le [OF ear, of y] by (simp add: navigations_def)
  from inv show ?thesis
    unfolding navigating_def n l h now_fire
    by (elim conjE disjE) (use le in force)+
next
  case True
  have xin: "x \<in> set (navigations u)"
    using earliest_in [OF ear] True by (simp add: navigations_def)
  with inv have x: "x = (t0 + 500, Navigate link)" and old: "href (obj u link) = h"
    "now u \<le> t0 + 500"
    by (auto simp: navigating_def)
  have "location_href (fire x u) = h"
    using old by (simp add: fire_def x)
  moreover have "href (obj (fire x u) link) = h"
    using old by (simp add: fire_def del: run_callback.simps)
  moreover have "navigations (fire x u) = []"
    using inv xin by (auto simp: navigating_def navigations_fire)
  ultimately show ?thesis
    by (simp add: navigating_def x)
qed

lemma navigating_at:
  assumes "navigating link (now s) loc0 h s1" and "now s1 = now s"
  shows "location_href (advance (now s + t) s1) = (if t < 500 then loc0 else h)"
proof (rule advance_rule [where I = "\<lambda>u. navigating link (now s) loc0 h u \<and> now u \<le> now s + t"])
  show "navigating link (now s) loc0 h s1 \<and> now s1 \<le> now s + t"
    using assms by simp
next
  fix u x
  assume "navigating link (now s) loc0 h u \<and> now u \<le> now s + t"
    and "earliest (timers u) = Some x" and "fst x \<le> now s + t"
  then show "navigating link (now s) loc0 h (fire x u) \<and> now (fire x u) \<le> now s + t"
    by (simp add: navigating_step)
next
  fix u
  assume inv: "navigating link (now s) loc0 h u \<and> now u \<le> now s + t"
    and late: "list_all (\<lambda>y. now s + t < fst y) (timers u)"
  have late': "y \<in> set (navigations u) \<Longrightarrow> now s + t < fst y" for y
    using late by (simp add: navigations_def list_all_iff)
  from inv show "location_href (u\<lparr>now := max (now u) (now s + t)\<rparr>) =
      (if t < 500 then loc0 else h)"
    unfolding navigating_def
    by (elim conjE disjE) (use late' in force)+
qed

lemma demo_queries:
  "closest (cls ''task-item'') 10 (demo_page v) = Some 6"
  "closest (cls ''task-item'') 9 (demo_page v) = Some 6"
  "querySelector_in 6 (cls ''task-title'') (demo_page v) = Some 7"
  "querySelectorAll delete_links (demo_page v) = [10]"
  "querySelectorAll (cls ''task-toggle'') (demo_page v) = [9]"
  "querySelectorAll (cls ''task-item'') (demo_page v) = [6]"
  "querySelectorAll animated (demo_page v) = [6]"
  by (simp_all add: closest_def querySelector_in_def querySelectorAll_def matches_def
      matches_chain_def matches_compound_def cls_def delete_links_def animated_def ancestors_def
      descendants_def demo_page_def demo_obj_def el_def js_def new_element_def)

subsection \<open>The observer\<close>

lemma observed_fold_observe:
  "set (observed (fold observe xs s)) = set (observed s) \<union> set xs"
  by (induction xs arbitrary: s) (auto simp: observe_def)

lemma observe_fields [simp]:
  "shape (observe n s) = shape s" "obj (observe n s) = obj s" "next_id (observe n s) = next_id s"
  "listeners (observe n s) = listeners s" "timers (observe n s) = timers s"
  by (simp_all add: observe_def)

lemma observed_upd [simp]: "observed (upd n f s) = observed s"
  by (simp add: upd_def)

lemma observed_initAnimations_minimal:
  "set (observed (fold init_animated_minimal xs s)) = set (observed s) \<union> set xs"
  by (induction xs arbitrary: s) (auto simp: init_animated_minimal_def observe_def)

lemma observer_entry_frame:
  "observed (observer_entry en s) = observed s"
  "shape (observer_entry en s) = shape s"
  "next_id (observer_entry en s) = next_id s"
  "listeners (observer_entry en s) = listeners s"
  "timers (observer_entry en s) = timers s"
  by (simp_all add: observer_entry_def)

lemma observer_callback_frame:
  "observed (observer_callback entries s) = observed s \<and>
   shape (observer_callback entries s) = shape s \<and>
   next_id (observer_callback entries s) = next_id s \<and>
   listeners (observer_callback entries s) = listeners s \<and>
   timers (observer_callback entries s) = timers s"
  unfolding observer_callback_def
  by (induction entries arbitrary: s) (simp_all add: observer_entry_frame)

lemma observer_entry_revealed:
  "revealed x (observer_entry en s) \<longleftrightarrow>
     revealed x s \<or> (entry_target en = x \<and> isIntersecting en)"
  by (simp add: observer_entry_def revealed_def upd_def set_style_def)

lemma observer_callback_revealed:
  "revealed x (observer_callback entries s) \<longleftrightarrow> revealed x s \<or> intersecting x entries"
  unfolding observer_callback_def intersecting_def
  by (induction entries arbitrary: s) (auto simp: observer_entry_revealed)

lemma observer_callback_untouched:
  "\<not> intersecting x entries \<Longrightarrow> obj (observer_callback entries s) x = obj s x"
  unfolding observer_callback_def intersecting_def
  by (induction entries arbitrary: s) (auto simp: observer_entry_def upd_def)

subsection \<open>The bare page\<close>

lemma bare_queries:
  "querySelector (cls ''navbar-custom'') bare_page = None"
  "querySelectorAll animated bare_page = []"
  "getElementById (js ''addTaskForm'') bare_page = None"
  "getElementById (js ''task_name'') bare_page = None"
  "getElementById (js ''locationForm'') bare_page = None"
  "querySelectorAll (cls ''task-item'') bare_page = []"
  "querySelectorAll delete_links bare_page = []"
  "querySelector (cls ''weather-card'') bare_page = None"
  "querySelectorAll (cls ''alert-auto-hide'') bare_page = []"
  by (simp_all add: querySelector_def querySelectorAll_def getElementById_def matches_def
      matches_chain_def matches_compound_def cls_def delete_links_def animated_def ancestors_def
      bare_page_def el_def js_def new_element_def)

lemma load_minimal_bare:
  "load_minimal (script_minimal bare_page) =
     bare_page\<lparr>listeners :=
       [(Document, DOMContentLoaded, Load_minimal), (Document, KeyDown, Keydown_minimal),
        (Document, DOMContentLoaded, AlertsLoad_minimal),
        (Window, Scroll, NavbarScroll None)]\<rparr>"
proof -
  have q: "querySelector sel (s\<lparr>listeners := ls\<rparr>) = querySelector sel s"
    "querySelectorAll sel (s\<lparr>listeners := ls\<rparr>) = querySelectorAll sel s"
    "getElementById i (s\<lparr>listeners := ls\<rparr>) = getElementById i s" for sel s ls i
    by simp_all
  show ?thesis
    by (simp add: load_minimal_def script_minimal_def initNavbar_def addEventListener_def
        initAnimations_minimal_def initFormValidation_minimal_def
        initTaskInteractions_minimal_def initWeatherUpdates_minimal_def
        add_location_listener_def bare_queries Let_def)
       (simp add: bare_page_def)
qed

subsection \<open>Opacity along the code paths of \<^verbatim>\<open>main.js\<close>\<close>

lemma dims_refl: "dims x s s"
  by (simp add: dims_def)

lemma dims_trans: "dims x s s1 \<Longrightarrow> dims x s1 s2 \<Longrightarrow> dims x s s2"
  by (auto simp: dims_def)

lemma dims_same:
  "obj s' = obj s \<Longrightarrow> next_id s' = next_id s \<Longrightarrow> listeners s' = listeners s \<Longrightarrow>
     timers s' = timers s \<Longrightarrow> dims x s s'"
  by (simp add: dims_def main_only_def)

lemma dims_upd:
  assumes "dims x s s1"
    and "\<And>e. opacity (style (f e)) = opacity (style e) \<or> opacity (style (f e)) = js ''0.5''"
  shows "dims x s (upd n f s1)"
proof -
  have "dims x s1 (upd n f s1)"
    using assms(2) by (simp add: dims_def upd_def main_only_def)
  with assms(1) show ?thesis by (rule dims_trans)
qed

lemma dims_showToast: "dims x s s1 \<Longrightarrow> dims x s (showToast m ty s1)"
  by (erule dims_trans) (simp add: dims_def showToast_obj main_only_def)

lemma dims_addEventListener:
  "dims x s s1 \<Longrightarrow> main_listener l \<Longrightarrow> dims x s (addEventListener t ty l s1)"
  by (erule dims_trans) (simp add: dims_def addEventListener_def main_only_def)

lemma dims_setTimeout:
  "dims x s s1 \<Longrightarrow> main_callback cb \<Longrightarrow> dims x s (setTimeout cb d s1)"
  by (erule dims_trans) (simp add: dims_def setTimeout_def main_only_def)

lemma dims_effects:
  "dims x s s1 \<Longrightarrow> dims x s (focus n s1)"
  "dims x s s1 \<Longrightarrow> dims x s (alert m s1)"
  "dims x s s1 \<Longrightarrow> dims x s (confirm m s1)"
  "dims x s s1 \<Longrightarrow> dims x s (observe n s1)"
  "dims x s s1 \<Longrightarrow> dims x s (s1\<lparr>uncaught := u\<rparr>)"
  by (erule dims_trans, rule dims_same, simp_all)+

lemma dims_fold:
  assumes "\<And>n u. dims x s u \<Longrightarrow> dims x s (f n u)"
  shows "dims x s s1 \<Longrightarrow> dims x s (fold f xs s1)"
  by (induction xs arbitrary: s1) (simp_all add: assms)

lemma deliver_untouched:
  "\<not> (x \<in> set (observed s) \<and> intersecting x entries) \<Longrightarrow> obj (deliver entries s) x = obj s x"
  unfolding deliver_def
  by (rule observer_callback_untouched) (auto simp: intersecting_def list_ex_iff)

lemma deliver_revealed:
  "revealed x (deliver entries s) \<longleftrightarrow>
     revealed x s \<or> (x \<in> set (observed s) \<and> intersecting x entries)"
  by (auto simp: deliver_def observer_callback_revealed intersecting_def list_ex_iff)

lemma deliver_run:
  "observed (fold deliver reports s) = observed s \<and>
   (revealed x (fold deliver reports s) \<longleftrightarrow>
      revealed x s \<or> (x \<in> set (observed s) \<and> list_ex (intersecting x) reports))"
proof (induction reports arbitrary: s)
  case Nil
  then show ?case by simp
next
  case (Cons r reports)
  have o: "observed (deliver r s) = observed s"
    by (simp add: deliver_def observer_callback_frame)
  show ?case
    using Cons.IH [of "deliver r s"] by (auto simp: o deliver_revealed)
qed

lemmas dims_intros =
  dims_upd dims_showToast dims_addEventListener dims_setTimeout dims_effects dims_fold dims_refl

lemma dims_load_main: "dims x s s1 \<Longrightarrow> dims x s (load_main s1)"
  by (auto simp: load_main_def initAnimations_main_def initFormValidation_main_def
      initTaskInteractions_main_def initWeatherUpdates_main_def add_location_listener_def
      add_hover_main_def classList_add_def Let_def
      intro!: dims_intros split: option.splits)

lemma dims_run_listener:
  "main_listener l \<Longrightarrow> dims x s (snd (snd (run_listener l t a e s)))"
proof (cases l)
  case Load_main
  then show ?thesis by (simp add: dims_load_main dims_refl)
next
  case TaskSubmit_main
  then show ?thesis
    by (auto simp: taskForm_submit_main_def Let_def intro!: dims_intros split: option.splits)
next
  case TaskInput_main
  then show ?thesis
    by (auto simp: on_node_def taskInput_input_main_def Let_def intro!: dims_intros
        split: option.splits target.splits)
next
  case TaskEnter_main
  then show ?thesis
    by (auto simp: on_node_def task_mouseenter_main_def set_style_def intro!: dims_intros
        split: target.splits)
next
  case TaskLeave
  then show ?thesis
    by (auto simp: on_node_def task_mouseleave_def set_style_def intro!: dims_intros
        split: target.splits)
next
  case ToggleClick
  then show ?thesis
    by (auto simp: on_node_def toggle_click_def set_style_def intro!: dims_intros
        split: target.splits option.splits)
next
  case DeleteClick_main
  then show ?thesis
    by (auto simp: on_node_def delete_click_main_def Let_def intro!: dims_intros
        split: target.splits option.splits)
next
  case LocationSubmit
  then show ?thesis
    by (auto simp: locationForm_submit_def intro!: dims_intros)
next
  case Keydown_main
  then show ?thesis
    by (auto simp: keydown_main_def Let_def intro!: dims_intros split: option.splits)
next
  case EmojiEnter
  then show ?thesis
    by (auto simp: on_node_def emoji_mouseenter_def set_style_def intro!: dims_intros
        split: target.splits)
next
  case EmojiLeave
  then show ?thesis
    by (auto simp: on_node_def emoji_mouseleave_def set_style_def intro!: dims_intros
        split: target.splits)
qed simp_all

lemma dims_run_listeners:
  "list_all (\<lambda>r. main_listener (snd (snd r))) ls \<Longrightarrow> dims x s s1 \<Longrightarrow>
     dims x s (snd (run_listeners ls t ty a e s1))"
proof (induction ls arbitrary: e s1)
  case Nil
  then show ?case by simp
next
  case (Cons r ls)
  obtain t' ty' l where r: "r = (t', ty', l)"
    by (cases r) auto
  obtain c e' s' where run: "run_listener l t a e s1 = (c, e', s')"
    by (cases "run_listener l t a e s1") auto
  have l: "main_listener l" and ls: "list_all (\<lambda>r. main_listener (snd (snd r))) ls"
    using Cons.prems(1) r by simp_all
  have "dims x s1 s'"
    using dims_run_listener [OF l, of x s1 t a e] run by simp
  with Cons.prems(2) have s': "dims x s s'"
    by (rule dims_trans)
  then have u: "dims x s (s'\<lparr>uncaught := uncaught s' @ [err]\<rparr>)" for err
    by (rule dims_effects)
  show ?case
    using Cons.IH [OF ls s'] Cons.IH [OF ls u] Cons.IH [OF ls Cons.prems(2)]
    by (cases c) (simp_all add: r run)
qed

lemma dims_run_callback: "main_callback cb \<Longrightarrow> dims x s (run_callback cb s)"
  by (cases cb)
     (auto simp: removeChild_body_def animateWeatherEmoji_def classList_add_def
       classList_remove_def intro!: dims_intros dims_same split: option.splits)

lemma dims_fire:
  assumes "main_callback (snd y)"
  shows "dims x s (fire y s)"
proof -
  have "z \<in> set (remove1 y (timers s)) \<Longrightarrow> z \<in> set (timers s)" for z
    using set_remove1_subset [of y "timers s"] by auto
  then have "dims x s (s\<lparr>timers := remove1 y (timers s), now := max (now s) (fst y)\<rparr>)"
    by (simp add: dims_def main_only_def list_all_iff)
  then show ?thesis
    unfolding fire_def by (rule dims_trans) (rule dims_run_callback [OF assms])
qed

lemma dims_script_main: "dims x s (script_main s)"
  by (auto simp: script_main_def highlightRiskLevels_def highlight_item_def set_style_def
      intro!: dims_intros)

lemma dims_exec_main:
  "main_only s \<Longrightarrow> \<not> reveals p x s \<Longrightarrow> dims x s (exec_main p s)"
proof (cases p)
  case Script
  then show ?thesis by (simp add: dims_script_main)
next
  case (Event t ty a e)
  assume "main_only s"
  then have "list_all (\<lambda>r. main_listener (snd (snd r))) (listeners s)"
    by (simp add: main_only_def)
  then show ?thesis
    unfolding Event exec_main.simps dispatch_def
    by (rule dims_run_listeners) (rule dims_refl)
next
  case Timer
  assume m: "main_only s"
  show ?thesis
  proof (cases "earliest (timers s)")
    case None
    then show ?thesis by (simp add: Timer dims_refl)
  next
    case (Some y)
    have "main_callback (snd y)"
      using m earliest_in [OF Some] by (simp add: main_only_def list_all_iff)
    then show ?thesis
      by (simp add: Timer Some dims_fire)
  qed
next
  case (Intersection entries)
  assume "\<not> reveals p x s"
  then have "obj (deliver entries s) x = obj s x"
    by (simp add: Intersection deliver_untouched)
  then show ?thesis
    by (simp add: Intersection dims_def deliver_def observer_callback_frame main_only_def)
qed

subsection \<open>The loaded sample page\<close>

lemmas query_defs =
  closest_def querySelector_in_def querySelectorAll_def querySelector_def getElementById_def
  matches_def matches_chain_def matches_compound_def cls_def delete_links_def animated_def
  ancestors_def descendants_def

lemma loaded_main_eq:
  "loaded_main =
     (demo_page [])\<lparr>timers := [(500, AnimateWeatherEmoji)],
       listeners :=
         [(Document, DOMContentLoaded, Load_main), (Document, KeyDown, Keydown_main),
          (Node 2, Submit, TaskSubmit_main), (Node 3, Input, TaskInput_main),
          (Node 6, MouseEnter, TaskEnter_main), (Node 6, MouseLeave, TaskLeave),
          (Node 9, Click, ToggleClick), (Node 10, Click, DeleteClick_main)],
       observed := [6]\<rparr>"
  by (simp add: loaded_main_def dispatch_def script_main_def load_main_def
      highlightRiskLevels_def addEventListener_def setTimeout_def
      initAnimations_main_def initFormValidation_main_def initTaskInteractions_main_def
      initWeatherUpdates_main_def add_location_listener_def add_hover_main_def observe_def
      query_defs demo_page_def demo_obj_def el_def js_def new_element_def Let_def)

lemma toggled_main_eq:
  "toggled_main =
     upd 6 (set_style (\<lambda>st. st\<lparr>opacity := js ''0.5''\<rparr>))
       (upd 6 (set_style (\<lambda>st. st\<lparr>transition := js ''all 0.3s ease''\<rparr>)) loaded_main)"
  unfolding toggled_main_def
  by (simp add: loaded_main_eq dispatch_def on_node_def toggle_click_def)
     (simp add: query_defs demo_page_def demo_obj_def el_def js_def new_element_def)

section \<open>Claims\<close>

subsection \<open>C1\<close>

text \<open>
  C1 (as amended). \<open>initFormValidation\<close> registers the submit listener on the add-task
  form when the form is present. On a page with the task field and the submit button:
  if the trimmed value of the field is shorter than 3, the listener cancels the
  submission and returns the focus to the field, and the warning is a toast of class
  \<^verbatim>\<open>toast-warning\<close> in the second script but an \<^verbatim>\<open>alert\<close> box, with no toast, in
  \<^verbatim>\<open>main.js\<close>; otherwise the listener leaves the event as it is (the submission
  proceeds), disables the button, replaces its label with the spinner, and inserts an
  informational toast.
\<close>

theorem task_form_validation:
  assumes "allocated s"
    and "getElementById (js ''task_name'') s = Some field"
    and "getElementById (js ''submitTaskBtn'') s = Some btn"
  shows "listeners (initFormValidation_main s) =
           listeners s @
           on_present (getElementById (js ''addTaskForm'') s) Submit TaskSubmit_main @
           on_present (getElementById (js ''task_name'') s) Input TaskInput_main \<and>
         listeners (initFormValidation_minimal s) =
           listeners s @
           on_present (getElementById (js ''addTaskForm'') s) Submit TaskSubmit_minimal @
           on_present (getElementById (js ''task_name'') s) Input TaskInput_minimal \<and>
         fst (run_listener TaskSubmit_main form a e s) = Normal \<and>
         fst (run_listener TaskSubmit_minimal form a e s) = Normal \<and>
         (if length (trim (input_value (obj s field))) < 3
          then defaultPrevented (fst (snd (run_listener TaskSubmit_minimal form a e s))) \<and>
               notified (js ''toast-warning'') msg_too_short_minimal s
                 (snd (snd (run_listener TaskSubmit_minimal form a e s))) \<and>
               activeElement (snd (snd (run_listener TaskSubmit_minimal form a e s))) = Some field \<and>
               defaultPrevented (fst (snd (run_listener TaskSubmit_main form a e s))) \<and>
               dialogs (snd (snd (run_listener TaskSubmit_main form a e s))) =
                 dialogs s @ [Alert msg_too_short_main] \<and>
               body_children (snd (snd (run_listener TaskSubmit_main form a e s))) =
                 body_children s \<and>
               activeElement (snd (snd (run_listener TaskSubmit_main form a e s))) = Some field
          else fst (snd (run_listener TaskSubmit_minimal form a e s)) = e \<and>
               disabled (obj (snd (snd (run_listener TaskSubmit_minimal form a e s))) btn) \<and>
               innerHTML (obj (snd (snd (run_listener TaskSubmit_minimal form a e s))) btn) =
                 html_analyzing \<and>
               notified (js ''toast-info'') msg_analyzing s
                 (snd (snd (run_listener TaskSubmit_minimal form a e s))) \<and>
               fst (snd (run_listener TaskSubmit_main form a e s)) = e \<and>
               disabled (obj (snd (snd (run_listener TaskSubmit_main form a e s))) btn) \<and>
               innerHTML (obj (snd (snd (run_listener TaskSubmit_main form a e s))) btn) =
                 html_analyzing \<and>
               notified (js ''toast-info'') msg_analyzing s
                 (snd (snd (run_listener TaskSubmit_main form a e s))))"
proof -
  have b: "btn \<noteq> next_id s"
    using allocated_less [OF assms(1) getElementById_flat [OF assms(3)]] by simp
  show ?thesis
    using assms(2,3) b
    by (simp add: listeners_initFormValidation_main listeners_initFormValidation_minimal
        taskForm_submit_main_def taskForm_submit_minimal_def preventDefault_def Let_def
        notified_info' notified_warning' showToast_obj)
      (simp add: upd_def)
qed

theorem task_form_validation_witness:
  "allocated (demo_page (js ''ab'')) \<and>
   getElementById (js ''task_name'') (demo_page (js ''ab'')) = Some 3 \<and>
   getElementById (js ''submitTaskBtn'') (demo_page (js ''ab'')) = Some 5 \<and>
   length (trim (js ''ab'')) = 2 \<and> length (trim (js '' ab  '')) = 2 \<and>
   length (trim (js ''abc'')) = 3 \<and>
   defaultPrevented (fst (snd (run_listener TaskSubmit_minimal (Node 2) False plain_event
      (demo_page (js ''ab''))))) \<and>
   body_children (snd (snd (run_listener TaskSubmit_minimal (Node 2) False plain_event
      (demo_page (js ''ab''))))) = [1, 2, 6, 11] \<and>
   activeElement (snd (snd (run_listener TaskSubmit_minimal (Node 2) False plain_event
      (demo_page (js ''ab''))))) = Some 3 \<and>
   defaultPrevented (fst (snd (run_listener TaskSubmit_minimal (Node 2) False plain_event
      (demo_page (js '' ab  ''))))) \<and>
   \<not> defaultPrevented (fst (snd (run_listener TaskSubmit_minimal (Node 2) False plain_event
      (demo_page (js ''abc''))))) \<and>
   disabled (obj (snd (snd (run_listener TaskSubmit_minimal (Node 2) False plain_event
      (demo_page (js ''abc''))))) 5) \<and>
   innerHTML (obj (snd (snd (run_listener TaskSubmit_main (Node 2) False plain_event
      (demo_page (js ''abc''))))) 5) = html_analyzing \<and>
   body_children (snd (snd (run_listener TaskSubmit_main (Node 2) False plain_event
      (demo_page (js ''abc''))))) = [1, 2, 6, 11]"
proof -
  have t: "length (trim (js ''ab'')) = 2" "length (trim (js '' ab  '')) = 2"
    "length (trim (js ''abc'')) = 3"
    by (simp_all add: trim_def js_def is_white_space_def)
  have c: "body_children (demo_page v) = [1, 2, 6]" "next_id (demo_page v) = 11" for v
    by (simp_all add: demo_page_def body_children_def)
  show ?thesis
    using t allocated_demo_page [of "js ''ab''"] getElementById_demo(1,2) [of "js ''ab''"]
      task_form_validation [OF allocated_demo_page getElementById_demo(1,2),
        of "js ''ab''" "Node 2" False plain_event]
      task_form_validation [OF allocated_demo_page getElementById_demo(1,2),
        of "js '' ab  ''" "Node 2" False plain_event]
      task_form_validation [OF allocated_demo_page getElementById_demo(1,2),
        of "js ''abc''" "Node 2" False plain_event]
    by (simp add: notified_def c) (simp add: plain_event_def)
qed

text \<open>
  C1 as stated fails for \<^verbatim>\<open>main.js\<close>: with the task \<^verbatim>\<open>ab\<close> the submission is cancelled and
  an \<^verbatim>\<open>alert\<close> box is shown, but no notification element is created, no child is added to
  the body and no timer is set.
\<close>

theorem main_js_alerts_instead:
  "length (trim (js ''ab'')) < 3 \<and>
   \<not> notified (js ''toast-warning'') msg_too_short_main (demo_page (js ''ab''))
      (snd (snd (run_listener TaskSubmit_main (Node 2) False plain_event
         (demo_page (js ''ab''))))) \<and>
   body_children (demo_page (js ''ab'')) = [1, 2, 6] \<and>
   body_children (snd (snd (run_listener TaskSubmit_main (Node 2) False plain_event
      (demo_page (js ''ab''))))) = [1, 2, 6] \<and>
   next_id (snd (snd (run_listener TaskSubmit_main (Node 2) False plain_event
      (demo_page (js ''ab''))))) = next_id (demo_page (js ''ab'')) \<and>
   timers (snd (snd (run_listener TaskSubmit_main (Node 2) False plain_event
      (demo_page (js ''ab''))))) = [] \<and>
   dialogs (snd (snd (run_listener TaskSubmit_main (Node 2) False plain_event
      (demo_page (js ''ab''))))) = [Alert msg_too_short_main]"
  by (simp add: taskForm_submit_main_def getElementById_demo Let_def notified_def)
     (simp add: trim_def js_def is_white_space_def demo_page_def body_children_def)

subsection \<open>C2\<close>

text \<open>
  C2 (as amended). The two timers of \<open>showToast\<close> are both set at creation: the toast
  gets the class \<^verbatim>\<open>show\<close> 100ms after creation, loses it 3000ms after creation (so it is
  visible for 2900ms), and is removed from the body 300ms later, that is 3300ms after
  creation, whatever other timers are pending. \<open>t\<close> is the time since the call; the type
  passed must not itself add a class \<^verbatim>\<open>show\<close> (the scripts pass \<^verbatim>\<open>info\<close> and \<^verbatim>\<open>warning\<close>).
\<close>

theorem toast_lifecycle:
  assumes "allocated s"
    and "js ''show'' \<notin> set (tokens (js ''toast-notification toast-'' @ ty))"
  shows "now (advance (now s + t) (showToast m ty s)) = now s + t \<and>
         (attached (next_id s) (advance (now s + t) (showToast m ty s)) \<longleftrightarrow> t < 3300) \<and>
         (shown (next_id s) (advance (now s + t) (showToast m ty s)) \<longleftrightarrow> 100 \<le> t \<and> t < 3000)"
  using assms by (rule lifecycle_at)

theorem toast_lifecycle_witness:
  "allocated (demo_page []) \<and>
   js ''show'' \<notin> set (tokens (js ''toast-notification toast-'' @ js ''info'')) \<and>
   \<not> shown 11 (advance 99 (showToast msg_analyzing (js ''info'') (demo_page []))) \<and>
   shown 11 (advance 100 (showToast msg_analyzing (js ''info'') (demo_page []))) \<and>
   shown 11 (advance 2999 (showToast msg_analyzing (js ''info'') (demo_page []))) \<and>
   \<not> shown 11 (advance 3000 (showToast msg_analyzing (js ''info'') (demo_page []))) \<and>
   attached 11 (advance 3299 (showToast msg_analyzing (js ''info'') (demo_page []))) \<and>
   \<not> attached 11 (advance 3300 (showToast msg_analyzing (js ''info'') (demo_page [])))"
proof -
  have a: "allocated (demo_page [])"
    by (rule allocated_demo_page)
  have b: "js ''show'' \<notin> set (tokens (js ''toast-notification toast-'' @ js ''info''))"
    by (simp add: info_tokens) (simp add: js_def)
  have n: "now (demo_page []) = 0" "next_id (demo_page []) = 11"
    by (simp_all add: demo_page_def)
  show ?thesis
    using a b
      toast_lifecycle [OF a b, of 99 msg_analyzing]
      toast_lifecycle [OF a b, of 100 msg_analyzing]
      toast_lifecycle [OF a b, of 2999 msg_analyzing]
      toast_lifecycle [OF a b, of 3000 msg_analyzing]
      toast_lifecycle [OF a b, of 3299 msg_analyzing]
      toast_lifecycle [OF a b, of 3300 msg_analyzing]
    by (simp add: n)
qed

text \<open>
  C2 as stated fails: the claim puts the removal 100 + 3000 + 300 = 3400ms after
  creation. On the sample page the toast is still a child of the body at 3299ms and is
  gone at 3300ms; it is visible from 100ms to 3000ms.
\<close>

theorem toast_removed_at_3300:
  "attached 11 (advance 3299 (showToast msg_analyzing (js ''info'') (demo_page []))) \<and>
   \<not> attached 11 (advance 3300 (showToast msg_analyzing (js ''info'') (demo_page []))) \<and>
   (3300 :: nat) < 100 + 3000 + 300"
  by (simp add: advance.simps showToast_def createElement_def upd_def appendChild_body_def
      setTimeout_def demo_page_def fire_def removeChild_body_def body_children_def attached_def)

subsection \<open>C3\<close>

text \<open>
  C3 (as amended). \<open>initAnimations\<close> puts every \<^verbatim>\<open>.animate-fade-in\<close> and
  \<^verbatim>\<open>.animate-slide-up\<close> element under observation. Whenever the observer reports an
  observed element as intersecting, the first time or a later one, the callback sets it
  to revealed (opacity \<^verbatim>\<open>1\<close>, transform \<^verbatim>\<open>translateY(0)\<close>); an element that is not reported
  intersecting is left as it is. Observation never stops: the set of observed elements
  is the same after every report and after every run of reports. No report takes an
  element out of the revealed state: after one report, and after any run of consecutive
  reports, an element is revealed exactly if it was revealed before or it is observed and
  one of the reports found it intersecting. Over a run of the whole script the revealed
  state can change more than once, because other listeners write the same style
  properties and the next intersecting report reveals the element again.
\<close>

theorem reveal_on_view:
  "set (observed (initAnimations_main s)) = set (observed s) \<union> set (querySelectorAll animated s) \<and>
   set (observed (initAnimations_minimal s)) =
     set (observed s) \<union> set (querySelectorAll animated s) \<and>
   observed (deliver entries s) = observed s \<and>
   (revealed x (deliver entries s) \<longleftrightarrow>
      revealed x s \<or> (x \<in> set (observed s) \<and> intersecting x entries)) \<and>
   (\<not> (x \<in> set (observed s) \<and> intersecting x entries) \<longrightarrow>
      obj (deliver entries s) x = obj s x) \<and>
   observed (fold deliver reports s) = observed s \<and>
   (revealed x (fold deliver reports s) \<longleftrightarrow>
      revealed x s \<or> (x \<in> set (observed s) \<and> list_ex (intersecting x) reports))"
proof -
  have i: "intersecting x (filter (\<lambda>en. entry_target en \<in> set (observed s)) entries) \<longleftrightarrow>
           x \<in> set (observed s) \<and> intersecting x entries"
    by (auto simp: intersecting_def list_ex_iff)
  show ?thesis
    using observer_callback_untouched
      [of x "filter (\<lambda>en. entry_target en \<in> set (observed s)) entries" s]
      deliver_run [of reports s x]
    by (simp add: initAnimations_main_def initAnimations_minimal_def observed_fold_observe
        observed_initAnimations_minimal deliver_def observer_callback_frame
        observer_callback_revealed i)
qed

theorem reveal_on_view_witness:
  "observed (initAnimations_minimal (demo_page [])) = [6] \<and>
   opacity (style (obj (initAnimations_minimal (demo_page [])) 6)) = js ''0'' \<and>
   \<not> revealed 6 (deliver [seen 6 False] (initAnimations_minimal (demo_page []))) \<and>
   revealed 6 (deliver [seen 6 False, seen 6 True] (initAnimations_minimal (demo_page []))) \<and>
   revealed 6 (deliver [seen 6 False]
     (deliver [seen 6 False, seen 6 True] (initAnimations_minimal (demo_page [])))) \<and>
   obj (deliver [seen 7 True] (initAnimations_minimal (demo_page []))) 7 = obj (demo_page []) 7 \<and>
   revealed 6 (fold deliver [[seen 6 False], [seen 6 True], [seen 6 False], [seen 6 False]]
     (initAnimations_minimal (demo_page []))) \<and>
   \<not> revealed 6 (fold deliver [[seen 6 False], [seen 7 True]]
     (initAnimations_minimal (demo_page []))) \<and>
   observed (fold deliver [[seen 6 False], [seen 6 True], [seen 6 False], [seen 6 False]]
     (initAnimations_minimal (demo_page []))) = [6]"
proof -
  have o: "observed (initAnimations_minimal (demo_page [])) = [6]"
    by (simp add: initAnimations_minimal_def demo_queries init_animated_minimal_def observe_def)
       (simp add: demo_page_def)
  have s: "opacity (style (obj (initAnimations_minimal (demo_page [])) 6)) = js ''0''"
    "transform (style (obj (initAnimations_minimal (demo_page [])) 6)) = js ''translateY(30px)''"
    "obj (initAnimations_minimal (demo_page [])) 7 = obj (demo_page []) 7"
    by (simp_all add: initAnimations_minimal_def demo_queries init_animated_minimal_def
        observe_def upd_def set_style_def)
  have n: "\<not> revealed 6 (initAnimations_minimal (demo_page []))"
    by (simp add: revealed_def s js_def)
  have d: "observed (deliver [seen 6 False, seen 6 True] (initAnimations_minimal (demo_page []))) = [6]"
    using reveal_on_view [of "initAnimations_minimal (demo_page [])" "[seen 6 False, seen 6 True]" 6 "[]"]
    by (simp add: o)
  show ?thesis
    using o s n
      reveal_on_view [of "initAnimations_minimal (demo_page [])" "[seen 6 False]" 6
        "[[seen 6 False], [seen 6 True], [seen 6 False], [seen 6 False]]"]
      reveal_on_view [of "initAnimations_minimal (demo_page [])" "[seen 6 False, seen 6 True]" 6
        "[[seen 6 False], [seen 7 True]]"]
      reveal_on_view [of "deliver [seen 6 False, seen 6 True] (initAnimations_minimal (demo_page []))"
        "[seen 6 False]" 6 "[]"]
      reveal_on_view [of "initAnimations_minimal (demo_page [])" "[seen 7 True]" 7 "[]"]
    by (simp add: d intersecting_def seen_def del: fold_simps)
qed

text \<open>
  C3 as stated fails twice. Neither script ever calls \<^verbatim>\<open>unobserve\<close>: on the sample page
  the task item is still observed after the report that revealed it. And the revealed
  state changes more than once: in the second script the item is revealed by a report,
  hovering it overwrites the transform, and the next report reveals it again.
\<close>

theorem still_observed_after_reveal:
  "observed (initAnimations_main (demo_page [])) = [6] \<and>
   revealed 6 (deliver [seen 6 True] (initAnimations_main (demo_page []))) \<and>
   observed (deliver [seen 6 True] (initAnimations_main (demo_page []))) = [6] \<and>
   observed (deliver [seen 6 True] (initAnimations_minimal (demo_page []))) = [6] \<and>
   \<not> revealed 6 (initAnimations_minimal (demo_page [])) \<and>
   revealed 6 (deliver [seen 6 True] (initAnimations_minimal (demo_page []))) \<and>
   \<not> revealed 6 (snd (snd (run_listener TaskEnter_minimal (Node 6) False plain_event
      (deliver [seen 6 True] (initAnimations_minimal (demo_page [])))))) \<and>
   revealed 6 (deliver [seen 6 True]
     (snd (snd (run_listener TaskEnter_minimal (Node 6) False plain_event
        (deliver [seen 6 True] (initAnimations_minimal (demo_page [])))))))"
  by (simp add: initAnimations_main_def initAnimations_minimal_def demo_queries
      init_animated_minimal_def observe_def deliver_def observer_callback_def observer_entry_def
      seen_def revealed_def upd_def set_style_def on_node_def task_mouseenter_minimal_def)
    (simp add: demo_page_def js_def)

subsection \<open>C4\<close>

text \<open>
  C4. The claim fails on the code. On a page without a \<^verbatim>\<open>.navbar-custom\<close> element the
  second script's \<open>initNavbar\<close> registers its scroll listener all the same, with \<^verbatim>\<open>null\<close>
  captured; the other initializers skip their features silently (no further listener is
  registered), and the first scroll event throws a TypeError that reaches the event
  loop.
\<close>

theorem scroll_without_navbar_throws:
  "querySelector (cls ''navbar-custom'') bare_page = None \<and>
   snd (dispatch Document DOMContentLoaded False plain_event (script_minimal bare_page)) =
     bare_page\<lparr>listeners :=
       [(Document, DOMContentLoaded, Load_minimal), (Document, KeyDown, Keydown_minimal),
        (Document, DOMContentLoaded, AlertsLoad_minimal),
        (Window, Scroll, NavbarScroll None)]\<rparr> \<and>
   run_listener (NavbarScroll None) Window False plain_event
     (snd (dispatch Document DOMContentLoaded False plain_event (script_minimal bare_page))) =
     (Throw TypeError, plain_event,
      snd (dispatch Document DOMContentLoaded False plain_event (script_minimal bare_page))) \<and>
   uncaught (snd (dispatch Window Scroll False plain_event
     (snd (dispatch Document DOMContentLoaded False plain_event (script_minimal bare_page))))) =
     [TypeError]"
proof -
  have l: "listeners (script_minimal bare_page) =
      [(Document, DOMContentLoaded, Load_minimal), (Document, KeyDown, Keydown_minimal),
       (Document, DOMContentLoaded, AlertsLoad_minimal)]"
    by (simp add: script_minimal_def addEventListener_def bare_page_def)
  have a: "autohide_alerts (load_minimal (script_minimal bare_page)) =
      load_minimal (script_minimal bare_page)"
    unfolding load_minimal_bare by (simp add: autohide_alerts_def bare_queries)
  have d: "snd (dispatch Document DOMContentLoaded False plain_event (script_minimal bare_page)) =
      load_minimal (script_minimal bare_page)"
    by (simp add: dispatch_def l a)
  show ?thesis
    unfolding d load_minimal_bare
    by (simp add: bare_queries dispatch_def navbar_scroll_def) (simp add: bare_page_def)
qed

subsection \<open>C5\<close>

text \<open>
  C5. \<open>initTaskInteractions\<close> registers the click listener on every link that matches
  \<^verbatim>\<open>.task-actions a[href*="delete_task"]\<close>. The listener always prevents the default
  navigation, also when it then fails to find the task title. When it reaches the
  prompt: if the user confirms, an informational toast is inserted and, on a page with
  no other delayed navigation pending, \<^verbatim>\<open>location.href\<close> keeps its value until 500ms
  have passed and holds the link's \<^verbatim>\<open>href\<close> from then on; if the user declines, the page
  is as before but for the record of the prompt.
\<close>

theorem delete_confirmation:
  "listeners (initTaskInteractions_main s) =
     listeners s @
     concat (map hover_main (querySelectorAll (cls ''task-item'') s)) @
     map (\<lambda>n. (Node n, Click, ToggleClick)) (querySelectorAll (cls ''task-toggle'') s) @
     map (\<lambda>n. (Node n, Click, DeleteClick_main)) (querySelectorAll delete_links s) \<and>
   listeners (initTaskInteractions_minimal s) =
     listeners s @
     concat (map hover_minimal (querySelectorAll (cls ''task-item'') s)) @
     map (\<lambda>n. (Node n, Click, DeleteClick_minimal)) (querySelectorAll delete_links s) \<and>
   defaultPrevented (fst (snd (run_listener DeleteClick_main (Node link) answer e s))) \<and>
   defaultPrevented (fst (snd (run_listener DeleteClick_minimal (Node link) answer e s))) \<and>
   (closest (cls ''task-item'') link s = Some item \<and>
    querySelector_in item (cls ''task-title'') s = Some title \<longrightarrow>
      fst (run_listener DeleteClick_main (Node link) answer e s) = Normal \<and>
      fst (run_listener DeleteClick_minimal (Node link) answer e s) = Normal \<and>
      dialogs (snd (snd (run_listener DeleteClick_main (Node link) answer e s))) =
        dialogs s @ [Confirm (confirm_text_main (textContent (obj s title)))] \<and>
      dialogs (snd (snd (run_listener DeleteClick_minimal (Node link) answer e s))) =
        dialogs s @ [Confirm (confirm_text_minimal (textContent (obj s title)))] \<and>
      (if answer
       then notified (js ''toast-info'') msg_deleted_main s
              (snd (snd (run_listener DeleteClick_main (Node link) answer e s))) \<and>
            notified (js ''toast-info'') msg_deleted_minimal s
              (snd (snd (run_listener DeleteClick_minimal (Node link) answer e s))) \<and>
            (allocated s \<and> link \<in> set (flat (shape s)) \<and> navigations s = [] \<longrightarrow>
               location_href (advance (now s + t)
                  (snd (snd (run_listener DeleteClick_main (Node link) answer e s)))) =
                 (if t < 500 then location_href s else href (obj s link)) \<and>
               location_href (advance (now s + t)
                  (snd (snd (run_listener DeleteClick_minimal (Node link) answer e s)))) =
                 (if t < 500 then location_href s else href (obj s link)))
       else snd (snd (run_listener DeleteClick_main (Node link) answer e s)) =
              confirm (confirm_text_main (textContent (obj s title))) s \<and>
            snd (snd (run_listener DeleteClick_minimal (Node link) answer e s)) =
              confirm (confirm_text_minimal (textContent (obj s title))) s))"
proof -
  have prevented:
    "defaultPrevented (fst (snd (run_listener DeleteClick_main (Node link) ans e s)))"
    "defaultPrevented (fst (snd (run_listener DeleteClick_minimal (Node link) ans e s)))" for ans
    by (simp_all add: on_node_def delete_click_main_def delete_click_minimal_def
        preventDefault_def Let_def split: option.splits)
  have later:
    "location_href (advance (now s + t)
        (setTimeout (Navigate link) 500 (showToast m (js ''info'') (confirm c s)))) =
       (if t < 500 then location_href s else href (obj s link))"
    if "allocated s" "link \<in> set (flat (shape s))" "navigations s = []" for m c
  proof (rule navigating_at)
    have "link \<noteq> next_id s"
      using allocated_less [OF that(1,2)] by simp
    then show "navigating link (now s) (location_href s) (href (obj s link))
        (setTimeout (Navigate link) 500 (showToast m (js ''info'') (confirm c s)))"
      using that(3)
      by (simp add: navigating_def navigations_def setTimeout_def showToast_obj)
    show "now (setTimeout (Navigate link) 500 (showToast m (js ''info'') (confirm c s))) = now s"
      by (simp add: setTimeout_def)
  qed
  have n: "notified cl m s (setTimeout cb d (showToast m (js ''info'') (confirm c s)))" 
    if "cl = js ''toast-info''" for cl m cb d c
    using that by (simp add: notified_def setTimeout_def showToast_obj body_children_def info_tokens)
  have d: "dialogs (setTimeout cb d (showToast m ty (confirm c s))) = dialogs s @ [Confirm c]"
    for cb d m ty c
    by (simp add: setTimeout_def)
  have main: "run_listener DeleteClick_main (Node link) ans e s =
      (Normal, preventDefault e,
       if ans
       then setTimeout (Navigate link) 500
              (showToast msg_deleted_main (js ''info'')
                (confirm (confirm_text_main (textContent (obj s title))) s))
       else confirm (confirm_text_main (textContent (obj s title))) s)"
    if "closest (cls ''task-item'') link s = Some item"
      "querySelector_in item (cls ''task-title'') s = Some title" for ans
    using that by (simp add: on_node_def delete_click_main_def Let_def)
  have minimal: "run_listener DeleteClick_minimal (Node link) ans e s =
      (Normal, preventDefault e,
       if ans
       then setTimeout (Navigate link) 500
              (showToast msg_deleted_minimal (js ''info'')
                (confirm (confirm_text_minimal (textContent (obj s title))) s))
       else confirm (confirm_text_minimal (textContent (obj s title))) s)"
    if "closest (cls ''task-item'') link s = Some item"
      "querySelector_in item (cls ''task-title'') s = Some title" for ans
    using that by (simp add: on_node_def delete_click_minimal_def Let_def)
  show ?thesis
    by (simp add: listeners_initTaskInteractions_main listeners_initTaskInteractions_minimal
         prevented main minimal n d later del: run_listener.simps)
qed

theorem delete_confirmation_witness:
  "closest (cls ''task-item'') 10 (demo_page []) = Some 6 \<and>
   querySelector_in 6 (cls ''task-title'') (demo_page []) = Some 7 \<and>
   allocated (demo_page []) \<and> 10 \<in> set (flat (shape (demo_page []))) \<and>
   navigations (demo_page []) = [] \<and>
   defaultPrevented (fst (snd (run_listener DeleteClick_main (Node 10) True plain_event
      (demo_page [])))) \<and>
   body_children (snd (snd (run_listener DeleteClick_main (Node 10) True plain_event
      (demo_page [])))) = [1, 2, 6, 11] \<and>
   location_href (advance 499 (snd (snd (run_listener DeleteClick_main (Node 10) True
      plain_event (demo_page []))))) = js ''/'' \<and>
   location_href (advance 500 (snd (snd (run_listener DeleteClick_main (Node 10) True
      plain_event (demo_page []))))) = js ''/delete_task/1'' \<and>
   location_href (advance 500 (snd (snd (run_listener DeleteClick_minimal (Node 10) True
      plain_event (demo_page []))))) = js ''/delete_task/1'' \<and>
   snd (snd (run_listener DeleteClick_main (Node 10) False plain_event (demo_page []))) =
     confirm (confirm_text_main (js ''Jog'')) (demo_page [])"
proof -
  have f: "10 \<in> set (flat (shape (demo_page [])))" "navigations (demo_page []) = []"
    "now (demo_page []) = 0" "next_id (demo_page []) = 11"
    "body_children (demo_page []) = [1, 2, 6]" "location_href (demo_page []) = js ''/''"
    "href (obj (demo_page []) 10) = js ''/delete_task/1''"
    "textContent (obj (demo_page []) 7) = js ''Jog''"
    by (simp_all add: demo_page_def navigations_def body_children_def demo_obj_def el_def)
  show ?thesis
    using demo_queries(1,3) [of "[]"] allocated_demo_page [of "[]"] f
      delete_confirmation [of "demo_page []" 10 True plain_event 6 7 499]
      delete_confirmation [of "demo_page []" 10 True plain_event 6 7 500]
      delete_confirmation [of "demo_page []" 10 False plain_event 6 7 0]
    by (simp add: notified_def del: run_listener.simps)
qed

subsection \<open>C6\<close>

text \<open>
  C6 (as amended). Both scripts register the shortcut listener on the document, so it
  sees the keydown events of the whole page. On an event with Ctrl or Cmd held whose key
  is reported as the lower-case \<^verbatim>\<open>k\<close>, on any page and whatever element has the focus, the
  listener suppresses the default handling; if the task field is present it gets the
  focus and an informational toast is inserted; if it is absent the page is left as it
  is. On every other keydown the listener does nothing; that includes Ctrl/Cmd+K with
  Caps Lock on or Shift held, where the key is reported as \<^verbatim>\<open>K\<close>.
\<close>

theorem keyboard_shortcut:
  "listeners (script_main s) =
     listeners s @ [(Document, DOMContentLoaded, Load_main), (Document, KeyDown, Keydown_main)] \<and>
   listeners (script_minimal s) =
     listeners s @
     [(Document, DOMContentLoaded, Load_minimal), (Document, KeyDown, Keydown_minimal),
      (Document, DOMContentLoaded, AlertsLoad_minimal)] \<and>
   (if (ctrlKey e \<or> metaKey e) \<and> key e = js ''k''
    then fst (run_listener Keydown_main Document a e s) = Normal \<and>
         fst (run_listener Keydown_minimal Document a e s) = Normal \<and>
         defaultPrevented (fst (snd (run_listener Keydown_main Document a e s))) \<and>
         defaultPrevented (fst (snd (run_listener Keydown_minimal Document a e s))) \<and>
         (case getElementById (js ''task_name'') s of
            None \<Rightarrow>
              snd (snd (run_listener Keydown_main Document a e s)) = s \<and>
              snd (snd (run_listener Keydown_minimal Document a e s)) = s
          | Some field \<Rightarrow>
              activeElement (snd (snd (run_listener Keydown_main Document a e s))) = Some field \<and>
              activeElement (snd (snd (run_listener Keydown_minimal Document a e s))) = Some field \<and>
              notified (js ''toast-info'') msg_quick_add_main s
                (snd (snd (run_listener Keydown_main Document a e s))) \<and>
              notified (js ''toast-info'') msg_quick_add_minimal s
                (snd (snd (run_listener Keydown_minimal Document a e s))))
    else run_listener Keydown_main Document a e s = (Normal, e, s) \<and>
         run_listener Keydown_minimal Document a e s = (Normal, e, s))"
proof -
  have f: "notified c m (focus n s) s' \<Longrightarrow> notified c m s s'" for c m n s'
    by (simp add: notified_def focus_def body_children_def)
  show ?thesis
    by (auto simp: script_main_def script_minimal_def addEventListener_def setTimeout_def
        keydown_main_def keydown_minimal_def preventDefault_def Let_def
        intro!: f [OF notified_info] split: option.splits)
qed

theorem keyboard_shortcut_witness:
  "(ctrlKey ctrl_k \<or> metaKey ctrl_k) \<and> key ctrl_k = js ''k'' \<and>
   defaultPrevented (fst (snd (run_listener Keydown_main Document False ctrl_k
      ((demo_page [])\<lparr>activeElement := Some 5\<rparr>)))) \<and>
   activeElement (snd (snd (run_listener Keydown_main Document False ctrl_k
      ((demo_page [])\<lparr>activeElement := Some 5\<rparr>)))) = Some 3 \<and>
   body_children (snd (snd (run_listener Keydown_main Document False ctrl_k
      ((demo_page [])\<lparr>activeElement := Some 5\<rparr>)))) = [1, 2, 6, 11] \<and>
   defaultPrevented (fst (snd (run_listener Keydown_minimal Document False ctrl_k bare_page))) \<and>
   snd (snd (run_listener Keydown_minimal Document False ctrl_k bare_page)) = bare_page"
proof -
  have k: "ctrlKey ctrl_k \<or> metaKey ctrl_k" "key ctrl_k = js ''k''"
    by (simp_all add: ctrl_k_def)
  have g: "getElementById (js ''task_name'') ((demo_page [])\<lparr>activeElement := Some 5\<rparr>) = Some 3"
    using getElementById_demo(1) [of "[]"] by (simp add: getElementById_def)
  have b: "getElementById (js ''task_name'') bare_page = None"
    by (simp add: getElementById_def bare_page_def el_def js_def)
  show ?thesis
    using k keyboard_shortcut [of "(demo_page [])\<lparr>activeElement := Some 5\<rparr>" ctrl_k False]
      keyboard_shortcut [of bare_page ctrl_k False]
    by (simp add: g b notified_def) (simp add: demo_page_def body_children_def)
qed

text \<open>
  C6 as stated fails: Ctrl+K pressed with Caps Lock on (or with Shift) reports the key
  \<^verbatim>\<open>K\<close>, which the test \<^verbatim>\<open>e.key === 'k'\<close> does not accept. On the sample page, which has
  the task field, the listeners of both scripts then leave the event and the page as
  they are: the default is not suppressed, the field is not focused, no toast appears.
\<close>

theorem upper_case_k_not_intercepted:
  "ctrlKey ctrl_upper_k \<and> key ctrl_upper_k = js ''K'' \<and>
   getElementById (js ''task_name'') (demo_page []) = Some 3 \<and>
   run_listener Keydown_main Document False ctrl_upper_k (demo_page []) =
     (Normal, ctrl_upper_k, demo_page []) \<and>
   run_listener Keydown_minimal Document False ctrl_upper_k (demo_page []) =
     (Normal, ctrl_upper_k, demo_page []) \<and>
   \<not> defaultPrevented (fst (snd (run_listener Keydown_main Document False ctrl_upper_k
      (demo_page [])))) \<and>
   activeElement (snd (snd (run_listener Keydown_main Document False ctrl_upper_k
      (demo_page [])))) = None \<and>
   body_children (snd (snd (run_listener Keydown_main Document False ctrl_upper_k
      (demo_page [])))) = body_children (demo_page [])"
  by (simp add: getElementById_demo)
     (simp add: keydown_main_def keydown_minimal_def ctrl_upper_k_def js_def demo_page_def)

subsection \<open>C7\<close>

text \<open>
  C7. Every call to \<open>showToast\<close> inserts a fresh element as the last child of the body
  and leaves every other element as it was: the new identity is not in the tree before
  the call, and the store changes at that identity only. There is no de-duplication and
  no cap: any list of calls, repeated messages included, adds one element per call.
  The elements stay independent afterwards: a timer callback of one toast changes
  neither the properties of another element nor whether it is a child of the body.
\<close>

theorem showToast_independent:
  assumes "allocated s"
  shows "body_children (showToast m ty s) = body_children s @ [next_id s] \<and>
         next_id s \<notin> set (flat (shape s)) \<and>
         (\<forall>n. n \<noteq> next_id s \<longrightarrow> obj (showToast m ty s) n = obj s n) \<and>
         body_children (fold (\<lambda>c. showToast (fst c) (snd c)) calls s) =
           body_children s @ [next_id s ..< next_id s + length calls] \<and>
         (\<forall>cb k n. toast_of cb = Some k \<and> n \<noteq> k \<longrightarrow>
            obj (run_callback cb s) n = obj s n \<and>
            (n \<in> set (body_children (run_callback cb s)) \<longleftrightarrow> n \<in> set (body_children s)))"
proof -
  have fresh: "next_id s \<notin> set (flat (shape s))"
    using assms by (auto simp: allocated_def list_all_iff)
  show ?thesis
    using fresh by (simp add: showToast_obj showToasts_children run_callback_frame)
qed

theorem showToast_independent_witness:
  "allocated (demo_page []) \<and>
   body_children (showToast msg_analyzing (js ''info'') (demo_page [])) = [1, 2, 6, 11] \<and>
   body_children (fold (\<lambda>c. showToast (fst c) (snd c))
      [(msg_analyzing, js ''info''), (msg_analyzing, js ''info'')] (demo_page [])) =
     [1, 2, 6, 11, 12] \<and>
   obj (showToast msg_analyzing (js ''info'') (demo_page [])) 6 = obj (demo_page []) 6"
proof -
  have a: "allocated (demo_page [])"
    by (simp add: allocated_def demo_page_def)
  show ?thesis
    using a showToast_independent [OF a, of msg_analyzing "js ''info''"
        "[(msg_analyzing, js ''info''), (msg_analyzing, js ''info'')]"]
    by (simp add: demo_page_def body_children_def)
qed

subsection \<open>C8\<close>

text \<open>
  C8. \<open>initTaskInteractions\<close> registers the hover listeners on every \<^verbatim>\<open>.task-item\<close>
  element, in both scripts. Hover-enter sets the item's transform to a lateral offset
  (\<^verbatim>\<open>translateX(5px)\<close> in \<^verbatim>\<open>main.js\<close>, \<^verbatim>\<open>translateX(8px)\<close> in the second script) and
  changes nothing else; hover-leave after hover-enter leaves the page as it was before,
  except that the item's transform is \<^verbatim>\<open>translateX(0)\<close>, the unoffset position: the
  item's other properties and every other element are as before.
\<close>

theorem hover_enter_leave:
  "listeners (initTaskInteractions_main s) =
     listeners s @
     concat (map hover_main (querySelectorAll (cls ''task-item'') s)) @
     map (\<lambda>n. (Node n, Click, ToggleClick)) (querySelectorAll (cls ''task-toggle'') s) @
     map (\<lambda>n. (Node n, Click, DeleteClick_main)) (querySelectorAll delete_links s) \<and>
   listeners (initTaskInteractions_minimal s) =
     listeners s @
     concat (map hover_minimal (querySelectorAll (cls ''task-item'') s)) @
     map (\<lambda>n. (Node n, Click, DeleteClick_minimal)) (querySelectorAll delete_links s) \<and>
   run_listener TaskEnter_main (Node item) a e s =
     (Normal, e, upd item (set_style (\<lambda>st. st\<lparr>transform := js ''translateX(5px)''\<rparr>)) s) \<and>
   run_listener TaskEnter_minimal (Node item) a e s =
     (Normal, e, upd item (set_style (\<lambda>st. st\<lparr>transform := js ''translateX(8px)''\<rparr>)) s) \<and>
   run_listener TaskLeave (Node item) a' e'
      (snd (snd (run_listener TaskEnter_main (Node item) a e s))) =
     (Normal, e', upd item (set_style (\<lambda>st. st\<lparr>transform := js ''translateX(0)''\<rparr>)) s) \<and>
   run_listener TaskLeave (Node item) a' e'
      (snd (snd (run_listener TaskEnter_minimal (Node item) a e s))) =
     (Normal, e', upd item (set_style (\<lambda>st. st\<lparr>transform := js ''translateX(0)''\<rparr>)) s) \<and>
   transform (style (obj (snd (snd (run_listener TaskEnter_main (Node item) a e s))) item)) =
     js ''translateX(5px)'' \<and>
   transform (style (obj (snd (snd (run_listener TaskEnter_minimal (Node item) a e s))) item)) =
     js ''translateX(8px)'' \<and>
   transform (style (obj (snd (snd (run_listener TaskLeave (Node item) a' e'
      (snd (snd (run_listener TaskEnter_main (Node item) a e s)))))) item)) =
     js ''translateX(0)'' \<and>
   transform (style (obj (snd (snd (run_listener TaskLeave (Node item) a' e'
      (snd (snd (run_listener TaskEnter_minimal (Node item) a e s)))))) item)) =
     js ''translateX(0)'' \<and>
   obj (snd (snd (run_listener TaskLeave (Node item) a' e'
      (snd (snd (run_listener TaskEnter_main (Node item) a e s)))))) =
     (obj s)(item := (obj s item)
        \<lparr>style := (style (obj s item))\<lparr>transform := js ''translateX(0)''\<rparr>\<rparr>) \<and>
   obj (snd (snd (run_listener TaskLeave (Node item) a' e'
      (snd (snd (run_listener TaskEnter_minimal (Node item) a e s)))))) =
     (obj s)(item := (obj s item)
        \<lparr>style := (style (obj s item))\<lparr>transform := js ''translateX(0)''\<rparr>\<rparr>) \<and>
   shape (snd (snd (run_listener TaskLeave (Node item) a' e'
      (snd (snd (run_listener TaskEnter_main (Node item) a e s)))))) = shape s \<and>
   shape (snd (snd (run_listener TaskLeave (Node item) a' e'
      (snd (snd (run_listener TaskEnter_minimal (Node item) a e s)))))) = shape s"
  by (simp add: listeners_initTaskInteractions_main listeners_initTaskInteractions_minimal
      on_node_def task_mouseenter_main_def task_mouseenter_minimal_def task_mouseleave_def
      upd_def set_style_def)

theorem hover_enter_leave_witness:
  "querySelectorAll (cls ''task-item'') (demo_page []) = [6] \<and>
   transform (style (obj (demo_page []) 6)) = [] \<and>
   transform (style (obj (snd (snd (run_listener TaskEnter_main (Node 6) False plain_event
      (demo_page [])))) 6)) = js ''translateX(5px)'' \<and>
   transform (style (obj (snd (snd (run_listener TaskEnter_minimal (Node 6) False plain_event
      (demo_page [])))) 6)) = js ''translateX(8px)'' \<and>
   transform (style (obj (snd (snd (run_listener TaskLeave (Node 6) False plain_event
      (snd (snd (run_listener TaskEnter_main (Node 6) False plain_event (demo_page []))))))) 6)) =
     js ''translateX(0)'' \<and>
   transform (style (obj (snd (snd (run_listener TaskLeave (Node 6) False plain_event
      (snd (snd (run_listener TaskEnter_minimal (Node 6) False plain_event
         (initAnimations_minimal (demo_page [])))))))) 6)) = js ''translateX(0)'' \<and>
   js ''translateX(5px)'' \<noteq> js ''translateX(0)'' \<and>
   js ''translateX(8px)'' \<noteq> js ''translateX(0)'' \<and>
   obj (snd (snd (run_listener TaskLeave (Node 6) False plain_event
      (snd (snd (run_listener TaskEnter_main (Node 6) False plain_event (demo_page []))))))) 7 =
     obj (demo_page []) 7 \<and>
   classList (obj (snd (snd (run_listener TaskLeave (Node 6) False plain_event
      (snd (snd (run_listener TaskEnter_main (Node 6) False plain_event (demo_page []))))))) 6) =
     [js ''task-item'', js ''animate-fade-in'']"
proof -
  note h = hover_enter_leave [of "demo_page []" 6 False plain_event False plain_event]
  note h' = hover_enter_leave [of "initAnimations_minimal (demo_page [])" 6 False plain_event
        False plain_event]
  have t1: "transform (style (obj (snd (snd (run_listener TaskEnter_main (Node 6) False plain_event
      (demo_page [])))) 6)) = js ''translateX(5px)''"
    using h by blast
  have t2: "transform (style (obj (snd (snd (run_listener TaskEnter_minimal (Node 6) False plain_event
      (demo_page [])))) 6)) = js ''translateX(8px)''"
    using h by blast
  have t3: "transform (style (obj (snd (snd (run_listener TaskLeave (Node 6) False plain_event
      (snd (snd (run_listener TaskEnter_main (Node 6) False plain_event (demo_page []))))))) 6)) =
     js ''translateX(0)''"
    using h by blast
  have t4: "transform (style (obj (snd (snd (run_listener TaskLeave (Node 6) False plain_event
      (snd (snd (run_listener TaskEnter_minimal (Node 6) False plain_event
         (initAnimations_minimal (demo_page [])))))))) 6)) = js ''translateX(0)''"
    using h' by blast
  have o: "obj (snd (snd (run_listener TaskLeave (Node 6) False plain_event
      (snd (snd (run_listener TaskEnter_main (Node 6) False plain_event (demo_page []))))))) =
     (obj (demo_page []))(6 := (obj (demo_page []) 6)
        \<lparr>style := (style (obj (demo_page []) 6))\<lparr>transform := js ''translateX(0)''\<rparr>\<rparr>)"
    using h by blast
  have d: "transform (style (obj (demo_page []) 6)) = []"
    "classList (obj (demo_page []) 6) = [js ''task-item'', js ''animate-fade-in'']"
    by (simp_all add: demo_page_def demo_obj_def el_def new_element_def)
  have n: "js ''translateX(5px)'' \<noteq> js ''translateX(0)''"
    "js ''translateX(8px)'' \<noteq> js ''translateX(0)''"
    by (simp_all add: js_def)
  show ?thesis
    unfolding o using t1 t2 t3 t4 d n demo_queries(6) [of "[]"]
    by (simp del: run_listener.simps)
qed

subsection \<open>C9\<close>



subsection \<open>C10\<close>

text \<open>
  C10 (as amended). \<open>initTaskInteractions\<close> of \<^verbatim>\<open>main.js\<close> registers the click listener
  on every \<^verbatim>\<open>.task-toggle\<close> link. With an enclosing task item, the listener sets the
  item's transition and its opacity to \<^verbatim>\<open>0.5\<close> and leaves the event alone (the default
  navigation is not prevented). Then, for every code path \<open>p\<close> of the script (its top
  level, the dispatch of any event to the registered listeners, a timer, a report of the
  observer), an element whose opacity is \<^verbatim>\<open>0.5\<close> keeps it, except that the observer's
  callback sets it to \<^verbatim>\<open>1\<close> when the element is observed and reported intersecting.
\<close>

theorem toggle_dims_item:
  "listeners (initTaskInteractions_main s) =
     listeners s @
     concat (map hover_main (querySelectorAll (cls ''task-item'') s)) @
     map (\<lambda>n. (Node n, Click, ToggleClick)) (querySelectorAll (cls ''task-toggle'') s) @
     map (\<lambda>n. (Node n, Click, DeleteClick_main)) (querySelectorAll delete_links s) \<and>
   (closest (cls ''task-item'') link s = Some item \<longrightarrow>
      fst (run_listener ToggleClick (Node link) a e s) = Normal \<and>
      fst (snd (run_listener ToggleClick (Node link) a e s)) = e \<and>
      opacity (style (obj (snd (snd (run_listener ToggleClick (Node link) a e s))) item)) =
        js ''0.5'' \<and>
      transition (style (obj (snd (snd (run_listener ToggleClick (Node link) a e s))) item)) =
        js ''all 0.3s ease'') \<and>
   (main_only s \<and> x < next_id s \<and> opacity (style (obj s x)) = js ''0.5'' \<longrightarrow>
      opacity (style (obj (exec_main p s) x)) =
        (if reveals p x s then js ''1'' else js ''0.5'') \<and>
      main_only (exec_main p s) \<and> x < next_id (exec_main p s))"
proof -
  have click: "run_listener ToggleClick (Node link) a e s =
      (Normal, e,
       upd item (set_style (\<lambda>st. st\<lparr>opacity := js ''0.5''\<rparr>))
         (upd item (set_style (\<lambda>st. st\<lparr>transition := js ''all 0.3s ease''\<rparr>)) s))"
    if "closest (cls ''task-item'') link s = Some item"
    using that by (simp add: on_node_def toggle_click_def)
  have keep: "opacity (style (obj (exec_main p s) x)) = js ''0.5'' \<and>
      main_only (exec_main p s) \<and> x < next_id (exec_main p s)"
    if "main_only s" "x < next_id s" "opacity (style (obj s x)) = js ''0.5''"
      "\<not> reveals p x s"
    using dims_exec_main [OF that(1,4)] that(1,2,3) by (auto simp: dims_def)
  have restore: "opacity (style (obj (exec_main p s) x)) = js ''1'' \<and>
      main_only (exec_main p s) \<and> x < next_id (exec_main p s)"
    if m: "main_only s" and l: "x < next_id s" and r: "reveals p x s"
  proof -
    obtain entries where p: "p = Intersection entries"
      using r by (cases p) simp_all
    have "revealed x (deliver entries s)"
      using r by (simp add: p deliver_revealed)
    then show ?thesis
      using m l
      by (simp add: p revealed_def main_only_def deliver_def observer_callback_frame)
  qed
  show ?thesis
    using keep restore
    by (simp add: listeners_initTaskInteractions_main click upd_def set_style_def
        del: run_listener.simps)
qed

theorem toggle_dims_item_witness:
  "closest (cls ''task-item'') 9 loaded_main = Some 6 \<and>
   \<not> defaultPrevented (fst (snd (run_listener ToggleClick (Node 9) False plain_event loaded_main))) \<and>
   main_only toggled_main \<and> 6 < next_id toggled_main \<and>
   opacity (style (obj toggled_main 6)) = js ''0.5'' \<and>
   opacity (style (obj (exec_main (Event (Node 6) MouseEnter False plain_event) toggled_main) 6)) =
     js ''0.5'' \<and>
   opacity (style (obj (exec_main Timer toggled_main) 6)) = js ''0.5'' \<and>
   opacity (style (obj (exec_main (Intersection [seen 6 False]) toggled_main) 6)) = js ''0.5'' \<and>
   opacity (style (obj (exec_main (Intersection [seen 6 True]) toggled_main) 6)) = js ''1''"
proof -
  have c: "closest (cls ''task-item'') 9 loaded_main = Some 6"
    by (simp add: loaded_main_eq query_defs demo_page_def demo_obj_def el_def js_def
        new_element_def)
  have m: "main_only toggled_main" "6 < next_id toggled_main"
    "opacity (style (obj toggled_main 6)) = js ''0.5''" "observed toggled_main = [6]"
    by (simp_all add: toggled_main_eq loaded_main_eq main_only_def upd_def set_style_def)
       (simp_all add: demo_page_def)
  show ?thesis
    using c m(1,2,3)
      toggle_dims_item [of loaded_main 9 6 False plain_event 6 Script]
      toggle_dims_item [of toggled_main 9 6 False plain_event 6
        "Event (Node 6) MouseEnter False plain_event"]
      toggle_dims_item [of toggled_main 9 6 False plain_event 6 Timer]
      toggle_dims_item [of toggled_main 9 6 False plain_event 6 "Intersection [seen 6 False]"]
      toggle_dims_item [of toggled_main 9 6 False plain_event 6 "Intersection [seen 6 True]"]
    by (simp add: m(4) intersecting_def seen_def plain_event_def del: run_listener.simps exec_main.simps)
qed

text \<open>
  C10 as stated fails: the task item of the sample page is also an animated element.
  After \<^verbatim>\<open>main.js\<close> is loaded and the toggle link is clicked its opacity is \<^verbatim>\<open>0.5\<close>; the
  next report of the observer that finds it intersecting sets the opacity to \<^verbatim>\<open>1\<close>.
\<close>

theorem observer_restores_opacity:
  "js ''task-item'' \<in> set (classList (obj (demo_page []) 6)) \<and>
   js ''animate-fade-in'' \<in> set (classList (obj (demo_page []) 6)) \<and>
   opacity (style (obj toggled_main 6)) = js ''0.5'' \<and>
   opacity (style (obj (exec_main (Intersection [seen 6 True]) toggled_main) 6)) = js ''1''"
  by (simp add: toggled_main_eq loaded_main_eq deliver_def observer_callback_def
      observer_entry_def seen_def upd_def set_style_def)
     (simp add: demo_page_def demo_obj_def el_def)

end
